theory Spec2Isabelle
  imports Main
begin

section \<open>The symbol table read by the stub generator\<close>

text \<open>
  The generator of \<^verbatim>\<open>packager/rbi_gen.cc\<close> only reads the symbol table
  (\<^verbatim>\<open>core::GlobalState\<close>). The table itself is not part of the file, so every
  query the generator makes on it is a field of the records below: a reference is an index,
  and \<^verbatim>\<open>ref.data(gs)->field\<close> is \<open>field (xData gs ref)\<close>.
\<close>

type_synonym NameRef = nat
type_synonym ClassOrModuleRef = nat
type_synonym MethodRef = nat
type_synonym FieldRef = nat
type_synonym TypeMemberRef = nat
type_synonym TypeArgumentRef = nat

datatype NameKind = UTF8 | UNIQUE | CONSTANT

text \<open>\<^verbatim>\<open>core::SymbolRef\<close>: a kind tag and an index; \<^verbatim>\<open>symbol.kind()\<close> is the
  constructor.\<close>

datatype SymbolRef =
    ClassOrModule ClassOrModuleRef
  | Method MethodRef
  | FieldOrStaticField FieldRef
  | TypeArgument TypeArgumentRef
  | TypeMember TypeMemberRef

fun isClassOrModule :: "SymbolRef \<Rightarrow> bool" where
  "isClassOrModule (ClassOrModule c) = True"
| "isClassOrModule s = False"

fun isTypeMember :: "SymbolRef \<Rightarrow> bool" where
  "isTypeMember (TypeMember t) = True"
| "isTypeMember s = False"

fun symbolIndex :: "SymbolRef \<Rightarrow> nat" where
  "symbolIndex (ClassOrModule i) = i"
| "symbolIndex (Method i) = i"
| "symbolIndex (FieldOrStaticField i) = i"
| "symbolIndex (TypeArgument i) = i"
| "symbolIndex (TypeMember i) = i"

text \<open>The casts \<^verbatim>\<open>asClassOrModuleRef()\<close>, \<^verbatim>\<open>asMethodRef()\<close>, ... are only used
  by the generator after the kind has been tested; they read the index.\<close>

definition asClassOrModuleRef :: "SymbolRef \<Rightarrow> ClassOrModuleRef" where
  "asClassOrModuleRef s = symbolIndex s"

text \<open>Modelled from the spec: the table resolves a name to a symbol or to "not found";
  the reference with index 0 (\<^verbatim>\<open>Symbols::noClassOrModule()\<close>, a default-constructed
  reference) is the one that does not exist.\<close>

definition noClassOrModule :: ClassOrModuleRef where
  "noClassOrModule = 0"

definition ref_exists :: "nat \<Rightarrow> bool" where
  "ref_exists r = (r \<noteq> 0)"

definition symbol_exists :: "SymbolRef \<Rightarrow> bool" where
  "symbol_exists s = ref_exists (symbolIndex s)"

text \<open>\<^verbatim>\<open>core::TypePtr\<close>: the tagged union the traversal switches on, with the null
  pointer as a value of its own.

  Modelled from the spec: the payload of the variants is declared outside this file. A
  literal carries "its underlying class, if any", a bounded parameter its "definition
  symbol" and its two bounds.\<close>

datatype TypePtr =
    NullType
  | AliasType SymbolRef
  | AndType TypePtr TypePtr
  | AppliedType ClassOrModuleRef "TypePtr list"
  | BlamedUntyped
  | ClassType ClassOrModuleRef
  | LiteralType "ClassOrModuleRef option"
  | MetaType TypePtr
  | OrType TypePtr TypePtr
  | SelfType
  | SelfTypeParam SymbolRef
  | ShapeType "TypePtr list" "TypePtr list"
  | TupleType "TypePtr list"
  | TypeVar SymbolRef
  | UnresolvedAppliedType ClassOrModuleRef ClassOrModuleRef "TypePtr list"
  | UnresolvedClassType
  | LambdaParam TypeMemberRef TypePtr TypePtr

datatype Variance = CoVariant | Invariant | ContraVariant

record ClassOrModuleData =
  c_name :: NameRef
  c_owner :: ClassOrModuleRef
  superClass :: ClassOrModuleRef
  isClassOrModuleClass :: bool
  isClassOrModuleAbstract :: bool
  isClassOrModuleFinal :: bool
  isClassOrModuleInterface :: bool
  isClassOrModuleSealed :: bool
  isSingletonClass :: bool
  attachedClass :: ClassOrModuleRef
  lookupSingletonClass :: ClassOrModuleRef
  mixins :: "ClassOrModuleRef list"
  typeMembers :: "TypeMemberRef list"
  membersStableOrderSlow :: "(NameRef \<times> SymbolRef) list"

record ArgInfo =
  argumentName :: string
  a_type :: TypePtr
  a_isKeyword :: bool
  a_isRepeated :: bool
  a_isDefault :: bool
  a_isBlock :: bool
  isSyntheticBlockArgument :: bool

record MethodData =
  m_name :: NameRef
  m_owner :: ClassOrModuleRef
  m_isPrivate :: bool
  m_isProtected :: bool
  m_isFinal :: bool
  m_isAbstract :: bool
  m_isOverridable :: bool
  m_isOverride :: bool
  arguments :: "ArgInfo list"
  typeArguments :: "TypeArgumentRef list"
  m_resultType :: TypePtr
  hasSig :: bool
  dealiasMethod :: MethodRef

record FieldData =
  f_name :: NameRef
  f_owner :: ClassOrModuleRef
  isField :: bool
  isStaticField :: bool
  f_resultType :: TypePtr

record TypeMemberData =
  tm_name :: NameRef
  tm_owner :: SymbolRef
  isFixed :: bool
  variance :: Variance
  tm_resultType :: TypePtr

record TypeArgumentData =
  ta_name :: NameRef
  ta_owner :: SymbolRef

text \<open>The well-known symbols \<^verbatim>\<open>core::Symbols::...()\<close> and names
  \<^verbatim>\<open>core::Names::...()\<close> the generator compares against. Their indices are fixed
  by the table, not by the generator, so they are fields as well.\<close>

record Symbols =
  root :: ClassOrModuleRef
  PackageRegistry :: ClassOrModuleRef
  T_Enum :: ClassOrModuleRef
  T_Struct :: ClassOrModuleRef
  Sorbet_Private_Static_ImplicitModuleSuperClass :: ClassOrModuleRef
  void_class :: ClassOrModuleRef
  untyped :: ClassOrModuleRef

record Names =
  singleton :: NameRef
  attached :: NameRef
  AttachedClass :: NameRef
  staticInit :: NameRef
  initialize :: NameRef
  sealedSubclasses :: NameRef
  Test :: NameRef

text \<open>The operations of \<^verbatim>\<open>core::Types\<close> that \<^verbatim>\<open>getResultType\<close> calls when it is given
  a receiver or a constraint.\<close>

typedecl TypeConstraint

record TypeOps =
  is_proxy_type :: "TypePtr \<Rightarrow> bool"
  underlying :: "TypePtr \<Rightarrow> TypePtr"
  resultTypeAsSeenFrom ::
    "TypePtr \<Rightarrow> ClassOrModuleRef \<Rightarrow> ClassOrModuleRef \<Rightarrow> TypePtr list \<Rightarrow> TypePtr"
  replaceSelfType :: "TypePtr \<Rightarrow> TypePtr \<Rightarrow> TypePtr"
  instantiate :: "TypePtr \<Rightarrow> TypeConstraint \<Rightarrow> TypePtr"

record PackageInfo =
  fullName :: "NameRef list"
  mangledName :: NameRef
  exports :: "NameRef list list"
  testExports :: "NameRef list list"

record GlobalState =
  Symbols :: Symbols
  Names :: Names
  Types :: TypeOps
  enclosingClass :: "SymbolRef \<Rightarrow> ClassOrModuleRef"
  getPackageInfo :: "NameRef \<Rightarrow> PackageInfo"
  classData :: "ClassOrModuleRef \<Rightarrow> ClassOrModuleData"
  methodData :: "MethodRef \<Rightarrow> MethodData"
  fieldData :: "FieldRef \<Rightarrow> FieldData"
  typeMemberData :: "TypeMemberRef \<Rightarrow> TypeMemberData"
  typeArgumentData :: "TypeArgumentRef \<Rightarrow> TypeArgumentData"
  findMember :: "ClassOrModuleRef \<Rightarrow> NameRef \<Rightarrow> SymbolRef"
  nameKind :: "NameRef \<Rightarrow> NameKind"
  nameShow :: "NameRef \<Rightarrow> string"
  nameToString :: "NameRef \<Rightarrow> string"
  symbolShow :: "SymbolRef \<Rightarrow> string"
  typeShow :: "TypePtr \<Rightarrow> string"
  typeToString :: "TypePtr \<Rightarrow> string"

text \<open>\<^verbatim>\<open>symbol.owner(gs)\<close>.\<close>

fun symbol_owner :: "GlobalState \<Rightarrow> SymbolRef \<Rightarrow> SymbolRef" where
  "symbol_owner gs (ClassOrModule c) = ClassOrModule (c_owner (classData gs c))"
| "symbol_owner gs (Method m) = ClassOrModule (m_owner (methodData gs m))"
| "symbol_owner gs (FieldOrStaticField f) = ClassOrModule (f_owner (fieldData gs f))"
| "symbol_owner gs (TypeArgument t) = ta_owner (typeArgumentData gs t)"
| "symbol_owner gs (TypeMember t) = tm_owner (typeMemberData gs t)"

section \<open>The package and the constant members of the exporter\<close>

text \<open>The members of \<^verbatim>\<open>RBIExporter\<close> that are \<^verbatim>\<open>const\<close>: set by the constructor
  and never written again.\<close>

record Exporter =
  pkg :: PackageInfo
  pkgNamespace :: ClassOrModuleRef
  pkgTestNamespace :: ClassOrModuleRef
  pkgNamespaces :: "ClassOrModuleRef set"

section \<open>The package boundary\<close>

text \<open>\<^verbatim>\<open>isInPackage\<close> and \<^verbatim>\<open>isInTestPackage\<close> recurse on the owner of the symbol.
  Nothing in the generator bounds the walk, so a walk that never reaches a deciding symbol
  is the value \<open>None\<close>.\<close>

partial_function (option) isInTestPackage ::
  "GlobalState \<Rightarrow> Exporter \<Rightarrow> SymbolRef \<Rightarrow> bool option" where
  "isInTestPackage gs ex klass =
    (if klass = ClassOrModule (root (Symbols gs)) \<or>
        klass = ClassOrModule (PackageRegistry (Symbols gs)) then Some False
     else if klass = ClassOrModule (pkgNamespace ex) then Some False
     else if klass = ClassOrModule (pkgTestNamespace ex) then Some True
     else if isClassOrModule klass \<and> asClassOrModuleRef klass \<in> pkgNamespaces ex
       then Some False
     else isInTestPackage gs ex (symbol_owner gs klass))"

declare isInTestPackage.simps [code]

partial_function (option) isInPackage ::
  "GlobalState \<Rightarrow> Exporter \<Rightarrow> SymbolRef \<Rightarrow> bool option" where
  "isInPackage gs ex klass =
    (if klass = ClassOrModule (root (Symbols gs)) \<or>
        klass = ClassOrModule (PackageRegistry (Symbols gs)) then Some False
     else if klass = ClassOrModule (pkgNamespace ex) \<or>
             klass = ClassOrModule (pkgTestNamespace ex) then Some True
     else if isClassOrModule klass \<and> asClassOrModuleRef klass \<in> pkgNamespaces ex
       then Some False
     else isInPackage gs ex (symbol_owner gs klass))"

declare isInPackage.simps [code]


section \<open>The text buffer\<close>

datatype error = InvalidKlass

definition NL :: string where
  "NL = [CHR 0x0A]"

text \<open>\<^verbatim>\<open>fmt::join(xs, sep)\<close>.\<close>

fun join :: "string \<Rightarrow> string list \<Rightarrow> string" where
  "join sep [] = []"
| "join sep [x] = x"
| "join sep (x # y # ys) = x @ sep @ join sep (y # ys)"

text \<open>\<^verbatim>\<open>absl::StartsWith(s, prefix)\<close>.\<close>

definition StartsWith :: "string \<Rightarrow> string \<Rightarrow> bool" where
  "StartsWith s p = (take (length p) s = p)"

text \<open>\<^verbatim>\<open>absl::StrReplaceAll(arg, {{"\n", "\n" + tabStr}})\<close>.\<close>

definition StrReplaceAll_newline :: "string \<Rightarrow> string \<Rightarrow> string" where
  "StrReplaceAll_newline arg t =
     concat (map (\<lambda>c. if c = CHR 0x0A then CHR 0x0A # t else [c]) arg)"

record Output =
  buffer :: string
  indent :: int
  tabStr :: string

definition resetTabString :: "Output \<Rightarrow> Output" where
  "resetTabString ou = ou\<lparr>tabStr := replicate (nat (indent ou * 2)) (CHR '' '')\<rparr>"

definition tab :: "Output \<Rightarrow> Output" where
  "tab ou = resetTabString (ou\<lparr>indent := indent ou + 1\<rparr>)"

definition untab :: "Output \<Rightarrow> Output" where
  "untab ou = resetTabString (ou\<lparr>indent := indent ou - 1\<rparr>)"

text \<open>The overload of \<^verbatim>\<open>println\<close> that takes a format string and arguments: the
  formatted text is appended as it is.\<close>

definition println_fmt :: "string \<Rightarrow> Output \<Rightarrow> Output" where
  "println_fmt s ou = ou\<lparr>buffer := buffer ou @ tabStr ou @ s @ NL\<rparr>"

text \<open>The overload that takes one string: every line of it is indented.\<close>

definition println :: "string \<Rightarrow> Output \<Rightarrow> Output" where
  "println arg ou =
     ou\<lparr>buffer := buffer ou @ tabStr ou @ StrReplaceAll_newline arg (tabStr ou) @ NL\<rparr>"

section \<open>The mutable members of the exporter\<close>

text \<open>Which routine printed a declaration, and for which symbol.\<close>

datatype Declaration =
    DeclClass ClassOrModuleRef
  | DeclMethod MethodRef
  | DeclInitialize MethodRef
  | DeclField FieldRef
  | DeclTypeMember TypeMemberRef

fun declSymbol :: "Declaration \<Rightarrow> SymbolRef" where
  "declSymbol (DeclClass c) = ClassOrModule c"
| "declSymbol (DeclMethod m) = Method m"
| "declSymbol (DeclInitialize m) = Method m"
| "declSymbol (DeclField f) = FieldOrStaticField f"
| "declSymbol (DeclTypeMember t) = TypeMember t"

text \<open>\<open>emittedSymbols\<close>, \<open>toEmit\<close> and \<open>out\<close> are the members of \<^verbatim>\<open>RBIExporter\<close>.
  The two other fields are traces that no routine reads: \<open>inserted\<close> records every call of
  \<^verbatim>\<open>emittedSymbols.insert\<close> in order, and \<open>rendered\<close> records, for the text now in the
  buffer, the declarations that were printed into it.\<close>

record ExporterState =
  emittedSymbols :: "SymbolRef set"
  toEmit :: "SymbolRef list"
  out :: Output
  inserted :: "SymbolRef list"
  rendered :: "Declaration list"

definition emittedSymbols_insert :: "SymbolRef \<Rightarrow> ExporterState \<Rightarrow> ExporterState" where
  "emittedSymbols_insert s st =
     st\<lparr>emittedSymbols := insert s (emittedSymbols st), inserted := inserted st @ [s]\<rparr>"

definition declared :: "Declaration \<Rightarrow> ExporterState \<Rightarrow> ExporterState" where
  "declared d st = st\<lparr>rendered := rendered st @ [d]\<rparr>"

definition out_println_fmt :: "string \<Rightarrow> ExporterState \<Rightarrow> ExporterState" where
  "out_println_fmt s st = st\<lparr>out := println_fmt s (out st)\<rparr>"

definition out_println :: "string \<Rightarrow> ExporterState \<Rightarrow> ExporterState" where
  "out_println s st = st\<lparr>out := println s (out st)\<rparr>"

definition Indent_enter :: "ExporterState \<Rightarrow> ExporterState" where
  "Indent_enter st = st\<lparr>out := tab (out st)\<rparr>"

definition Indent_leave :: "ExporterState \<Rightarrow> ExporterState" where
  "Indent_leave st = st\<lparr>out := untab (out st)\<rparr>"

text \<open>\<^verbatim>\<open>out.toString()\<close> returns the text and clears the buffer.\<close>

definition out_toString :: "ExporterState \<Rightarrow> string \<times> Declaration list \<times> ExporterState" where
  "out_toString st =
     (buffer (out st), rendered st, st\<lparr>out := (out st)\<lparr>buffer := []\<rparr>, rendered := []\<rparr>)"

text \<open>A \<^verbatim>\<open>for\<close> loop over a container whose body may not return.\<close>

fun forEach :: "('a \<Rightarrow> 's \<Rightarrow> 's option) \<Rightarrow> 'a list \<Rightarrow> 's \<Rightarrow> 's option" where
  "forEach f [] st = Some st"
| "forEach f (x # xs) st = (case f x st of None \<Rightarrow> None | Some st' \<Rightarrow> forEach f xs st')"

lemma forEach_cong [fundef_cong]:
  "xs = ys \<Longrightarrow> st = st' \<Longrightarrow> (\<And>x s. x \<in> set ys \<Longrightarrow> f x s = g x s)
   \<Longrightarrow> forEach f xs st = forEach g ys st'"
  by (induction ys arbitrary: xs st st') (auto split: option.splits)

section \<open>Scheduling a symbol\<close>

partial_function (option) maybeEmit ::
  "GlobalState \<Rightarrow> Exporter \<Rightarrow> SymbolRef \<Rightarrow> ExporterState \<Rightarrow> ExporterState option" where
  "maybeEmit gs ex symbol st =
    (if isClassOrModule symbol \<and> isSingletonClass (classData gs (asClassOrModuleRef symbol))
     then maybeEmit gs ex
            (ClassOrModule (attachedClass (classData gs (asClassOrModuleRef symbol)))) st
     else if symbol \<notin> emittedSymbols st then
       (case isInPackage gs ex symbol of
          None \<Rightarrow> None
        | Some inPackage \<Rightarrow>
            if inPackage
            then Some ((emittedSymbols_insert symbol st)\<lparr>toEmit := toEmit st @ [symbol]\<rparr>)
            else Some st)
     else Some st)"

declare maybeEmit.simps [code]

fun enqueueSymbolsInType ::
  "GlobalState \<Rightarrow> Exporter \<Rightarrow> TypePtr \<Rightarrow> ExporterState \<Rightarrow> ExporterState option" where
  "enqueueSymbolsInType gs ex NullType st = Some st"
| "enqueueSymbolsInType gs ex (AliasType symbol) st = maybeEmit gs ex symbol st"
| "enqueueSymbolsInType gs ex (AndType left right) st =
     (case enqueueSymbolsInType gs ex left st of
        None \<Rightarrow> None
      | Some st1 \<Rightarrow> enqueueSymbolsInType gs ex right st1)"
| "enqueueSymbolsInType gs ex (AppliedType klass targs) st =
     (case maybeEmit gs ex (ClassOrModule klass) st of
        None \<Rightarrow> None
      | Some st1 \<Rightarrow> forEach (enqueueSymbolsInType gs ex) targs st1)"
| "enqueueSymbolsInType gs ex BlamedUntyped st = Some st"
| "enqueueSymbolsInType gs ex (ClassType symbol) st = maybeEmit gs ex (ClassOrModule symbol) st"
| "enqueueSymbolsInType gs ex (LiteralType lit) st = Some st"
| "enqueueSymbolsInType gs ex (MetaType wrapped) st = enqueueSymbolsInType gs ex wrapped st"
| "enqueueSymbolsInType gs ex (OrType left right) st =
     (case enqueueSymbolsInType gs ex left st of
        None \<Rightarrow> None
      | Some st1 \<Rightarrow> enqueueSymbolsInType gs ex right st1)"
| "enqueueSymbolsInType gs ex SelfType st = Some st"
| "enqueueSymbolsInType gs ex (SelfTypeParam definition) st = maybeEmit gs ex definition st"
| "enqueueSymbolsInType gs ex (ShapeType keys vals) st =
     (case forEach (enqueueSymbolsInType gs ex) keys st of
        None \<Rightarrow> None
      | Some st1 \<Rightarrow> forEach (enqueueSymbolsInType gs ex) vals st1)"
| "enqueueSymbolsInType gs ex (TupleType elems) st =
     forEach (enqueueSymbolsInType gs ex) elems st"
| "enqueueSymbolsInType gs ex (TypeVar tv) st = Some st"
| "enqueueSymbolsInType gs ex (UnresolvedAppliedType klass symbol targs) st =
     (case maybeEmit gs ex (ClassOrModule klass) st of
        None \<Rightarrow> None
      | Some st1 \<Rightarrow>
          (case maybeEmit gs ex (ClassOrModule symbol) st1 of
             None \<Rightarrow> None
           | Some st2 \<Rightarrow> forEach (enqueueSymbolsInType gs ex) targs st2))"
| "enqueueSymbolsInType gs ex UnresolvedClassType st = Some st"
| "enqueueSymbolsInType gs ex (LambdaParam definition lowerBound upperBound) st =
     (case enqueueSymbolsInType gs ex lowerBound st of
        None \<Rightarrow> None
      | Some st1 \<Rightarrow> enqueueSymbolsInType gs ex upperBound st1)"


section \<open>Signatures and headers\<close>

definition methodData_of_dealias :: "GlobalState \<Rightarrow> MethodData \<Rightarrow> MethodData" where
  "methodData_of_dealias gs md = methodData gs (dealiasMethod md)"


definition untypedUntracked :: "GlobalState \<Rightarrow> TypePtr" where
  "untypedUntracked gs = ClassType (untyped (Symbols gs))"

definition Types_void :: "GlobalState \<Rightarrow> TypePtr" where
  "Types_void gs = ClassType (void_class (Symbols gs))"

definition getResultType ::
  "GlobalState \<Rightarrow> TypePtr \<Rightarrow> SymbolRef \<Rightarrow> TypePtr \<Rightarrow> TypeConstraint option \<Rightarrow> TypePtr" where
  "getResultType gs type inWhat receiver0 constr =
    (let receiver = (if is_proxy_type (Types gs) receiver0
                     then underlying (Types gs) receiver0 else receiver0);
         resultType1 =
           (case receiver of
              AppliedType klass targs \<Rightarrow>
                resultTypeAsSeenFrom (Types gs) type (enclosingClass gs inWhat) klass targs
            | _ \<Rightarrow> type);
         resultType2 = (if resultType1 = NullType then untypedUntracked gs else resultType1);
         resultType3 = (if receiver \<noteq> NullType
                        then replaceSelfType (Types gs) resultType2 receiver else resultType2)
     in case constr of
          None \<Rightarrow> resultType3
        | Some c \<Rightarrow> instantiate (Types gs) resultType3 c)"

definition MAX_PRETTY_SIG_ARGS :: nat where
  "MAX_PRETTY_SIG_ARGS = 4"

definition MAX_PRETTY_WIDTH :: nat where
  "MAX_PRETTY_WIDTH = 80"

text \<open>The local variables of \<^verbatim>\<open>prettySigForMethod\<close>, in the order it computes them.\<close>

definition sig_retType ::
  "GlobalState \<Rightarrow> MethodRef \<Rightarrow> TypePtr \<Rightarrow> TypePtr \<Rightarrow> TypeConstraint option \<Rightarrow> TypePtr" where
  "sig_retType gs method receiver retType constraint =
     (if retType = NullType
      then getResultType gs (m_resultType (methodData gs method)) (Method method)
             receiver constraint
      else retType)"

definition sig_methodReturnType :: "GlobalState \<Rightarrow> TypePtr \<Rightarrow> string" where
  "sig_methodReturnType gs retType =
     (if retType = Types_void gs then ''void''
      else ''returns('' @ typeShow gs retType @ '')'')"

definition sig_sigCall :: "GlobalState \<Rightarrow> MethodRef \<Rightarrow> string" where
  "sig_sigCall gs method = (if m_isFinal (methodData gs method) then ''sig(:final)'' else ''sig'')"

definition sig_flags :: "GlobalState \<Rightarrow> MethodRef \<Rightarrow> string list" where
  "sig_flags gs method =
     (if m_isAbstract (methodData gs method) then [''abstract''] else []) @
     (if m_isOverridable (methodData gs method) then [''overridable''] else []) @
     (if m_isOverride (methodData gs method) then [''override''] else [])"

definition sig_typeArguments :: "GlobalState \<Rightarrow> MethodRef \<Rightarrow> string list" where
  "sig_typeArguments gs method =
     map (\<lambda>ta. '':'' @ nameShow gs (ta_name (typeArgumentData gs ta)))
       (typeArguments (methodData gs method))"

text \<open>The arguments the signature shows: the synthetic block argument is left out.\<close>

definition sig_shownArguments :: "GlobalState \<Rightarrow> MethodRef \<Rightarrow> ArgInfo list" where
  "sig_shownArguments gs method =
     filter (\<lambda>argSym. \<not> isSyntheticBlockArgument argSym) (arguments (methodData gs method))"

definition sig_typeAndArgNames ::
  "GlobalState \<Rightarrow> MethodRef \<Rightarrow> TypePtr \<Rightarrow> TypeConstraint option \<Rightarrow> string list" where
  "sig_typeAndArgNames gs method receiver constraint =
     map (\<lambda>argSym. argumentName argSym @ '': '' @
            typeShow gs (getResultType gs (a_type argSym) (Method method) receiver constraint))
       (sig_shownArguments gs method)"

definition sig_oneline ::
  "string \<Rightarrow> string list \<Rightarrow> string list \<Rightarrow> string list \<Rightarrow> string \<Rightarrow> string" where
  "sig_oneline sigCall flags typeArgs typeAndArgNames methodReturnType =
     (let flagString = (if flags \<noteq> [] then join ''.'' flags @ ''.'' else []);
          typeParamsString =
            (if typeArgs \<noteq> [] then ''type_parameters('' @ join '', '' typeArgs @ '').'' else []);
          paramsString =
            (if typeAndArgNames \<noteq> [] then ''params('' @ join '', '' typeAndArgNames @ '').''
             else [])
      in sigCall @ '' {'' @ flagString @ typeParamsString @ paramsString @ methodReturnType
           @ ''}'')"

definition sig_multiline ::
  "string \<Rightarrow> string list \<Rightarrow> string list \<Rightarrow> string list \<Rightarrow> string \<Rightarrow> string" where
  "sig_multiline sigCall flags typeArgs typeAndArgNames methodReturnType =
     (let flagString =
            (if flags \<noteq> [] then join (NL @ ''  .'') flags @ NL @ ''  .'' else []);
          typeParamsString =
            (if typeArgs \<noteq> []
             then ''type_parameters('' @ join '', '' typeArgs @ '')'' @ NL @ ''  .'' else []);
          paramsString =
            (if typeAndArgNames \<noteq> []
             then ''params('' @ NL @ ''    '' @ join ('','' @ NL @ ''    '') typeAndArgNames
                    @ NL @ ''  )'' @ NL @ ''  .''
             else [])
      in sigCall @ '' do'' @ NL @ ''  '' @ flagString @ typeParamsString @ paramsString
           @ methodReturnType @ NL @ ''end'')"

text \<open>The two layouts of the signature of a method, from the variables above.\<close>

definition sig_oneline_for ::
  "GlobalState \<Rightarrow> MethodRef \<Rightarrow> TypePtr \<Rightarrow> TypePtr \<Rightarrow> TypeConstraint option \<Rightarrow> string" where
  "sig_oneline_for gs method receiver retType constraint =
     sig_oneline (sig_sigCall gs method) (sig_flags gs method) (sig_typeArguments gs method)
       (sig_typeAndArgNames gs method receiver constraint) (sig_methodReturnType gs retType)"

definition sig_multiline_for ::
  "GlobalState \<Rightarrow> MethodRef \<Rightarrow> TypePtr \<Rightarrow> TypePtr \<Rightarrow> TypeConstraint option \<Rightarrow> string" where
  "sig_multiline_for gs method receiver retType constraint =
     sig_multiline (sig_sigCall gs method) (sig_flags gs method) (sig_typeArguments gs method)
       (sig_typeAndArgNames gs method receiver constraint) (sig_methodReturnType gs retType)"

definition sig_text ::
  "GlobalState \<Rightarrow> MethodRef \<Rightarrow> TypePtr \<Rightarrow> TypePtr \<Rightarrow> TypeConstraint option \<Rightarrow> string" where
  "sig_text gs method receiver retType constraint =
     (let oneline = sig_oneline_for gs method receiver retType constraint in
      if length oneline \<le> MAX_PRETTY_WIDTH \<and>
         length (sig_typeAndArgNames gs method receiver constraint) \<le> MAX_PRETTY_SIG_ARGS
      then oneline
      else sig_multiline_for gs method receiver retType constraint)"

text \<open>\<^verbatim>\<open>prettySigForMethod\<close>: the text, and the symbols of the return type and of the
  shown argument types scheduled on the way. The two \<^verbatim>\<open>ENFORCE\<close>s are debug assertions and
  are compiled out.\<close>

definition prettySigForMethod ::
  "GlobalState \<Rightarrow> Exporter \<Rightarrow> MethodRef \<Rightarrow> TypePtr \<Rightarrow> TypePtr \<Rightarrow> TypeConstraint option
   \<Rightarrow> ExporterState \<Rightarrow> (string \<times> ExporterState) option" where
  "prettySigForMethod gs ex method receiver retType0 constraint st =
    (if \<not> ref_exists method then Some ([], st)
     else
       let retType = sig_retType gs method receiver retType0 constraint in
       case (if retType \<noteq> NullType then enqueueSymbolsInType gs ex retType st else Some st) of
         None \<Rightarrow> None
       | Some st1 \<Rightarrow>
           (case forEach
                   (\<lambda>argSym. enqueueSymbolsInType gs ex
                      (getResultType gs (a_type argSym) (Method method) receiver constraint))
                   (sig_shownArguments gs method) st1 of
              None \<Rightarrow> None
            | Some st2 \<Rightarrow> Some (sig_text gs method receiver retType constraint, st2)))"

text \<open>The decoration of one argument in a header.\<close>

definition def_prettyArg :: "ArgInfo \<Rightarrow> string" where
  "def_prettyArg argSym =
     (let (prefix, suffix) =
            (if a_isRepeated argSym then
               (if a_isKeyword argSym then (''**'', []) else (''*'', []))
             else if a_isKeyword argSym then
               (if a_isDefault argSym then ([], '': T.let(T.unsafe(nil), T.untyped)'')
                else ([], '':''))
             else if a_isBlock argSym then (''&'', [])
             else if a_isDefault argSym then ([], ''= T.let(T.unsafe(nil), T.untyped)'')
             else ([], []))
      in prefix @ argumentName argSym @ suffix)"

definition def_format ::
  "string \<Rightarrow> string \<Rightarrow> string \<Rightarrow> string \<Rightarrow> string list \<Rightarrow> string \<Rightarrow> string \<Rightarrow> string" where
  "def_format visibility methodNamePrefix methodName argListPrefix prettyArgs argListSeparator
     argListSuffix =
     visibility @ ''def '' @ methodNamePrefix @ methodName @ argListPrefix @
     join argListSeparator prettyArgs @ argListSuffix"

definition prettyDefForMethod :: "GlobalState \<Rightarrow> MethodRef \<Rightarrow> string" where
  "prettyDefForMethod gs method =
    (if \<not> ref_exists method then []
     else
       let md = methodData gs method;
           visibility = (if m_isPrivate md then ''private ''
                         else if m_isProtected md then ''protected '' else []);
           methodName = (if ref_exists (m_name md) then nameToString gs (m_name md)
                         else ''???'');
           methodNamePrefix =
             (if ref_exists (m_owner md) \<and> ref_exists (attachedClass (classData gs (m_owner md)))
              then ''self.'' else []);
           prettyArgs =
             map def_prettyArg
               (filter (\<lambda>argSym. \<not> isSyntheticBlockArgument argSym)
                  (arguments (methodData gs (dealiasMethod md))));
           result = (if prettyArgs \<noteq> []
                     then def_format visibility methodNamePrefix methodName ''('' prettyArgs
                            '', '' '')''
                     else def_format visibility methodNamePrefix methodName [] prettyArgs [] [])
       in if prettyArgs \<noteq> [] \<and> length result \<ge> MAX_PRETTY_WIDTH
          then def_format visibility methodNamePrefix methodName (''('' @ NL @ ''  '')
                 prettyArgs ('','' @ NL @ ''  '') (NL @ '')'')
          else result)"

section \<open>Declarations\<close>

text \<open>\<^verbatim>\<open>showVariance\<close>. The cast of the result type of a fixed type member to a bounded
  parameter is unchecked in the source; the model reads the upper bound of anything else as
  the null type.\<close>

definition showVariance :: "GlobalState \<Rightarrow> TypeMemberRef \<Rightarrow> string" where
  "showVariance gs tm =
     (if isFixed (typeMemberData gs tm) then
        ''fixed: '' @ typeToString gs
           (case tm_resultType (typeMemberData gs tm) of
              LambdaParam d lowerBound upperBound \<Rightarrow> upperBound
            | _ \<Rightarrow> NullType)
      else case variance (typeMemberData gs tm) of
             CoVariant \<Rightarrow> '':out''
           | Invariant \<Rightarrow> '':invariant''
           | ContraVariant \<Rightarrow> '':in'')"

definition typeDeclaration :: "GlobalState \<Rightarrow> TypePtr \<Rightarrow> string" where
  "typeDeclaration gs type =
     (case type of
        NullType \<Rightarrow> ''T.let(T.unsafe(nil), '' @ typeShow gs (untypedUntracked gs) @ '')''
      | AliasType symbol \<Rightarrow> symbolShow gs symbol
      | _ \<Rightarrow> ''T.let(T.unsafe(nil), '' @ typeShow gs type @ '')'')"

definition shouldSkipMember :: "GlobalState \<Rightarrow> NameRef \<Rightarrow> bool" where
  "shouldSkipMember gs name =
     (if nameKind gs name = UNIQUE then True
      else name = singleton (Names gs) \<or> name = AttachedClass (Names gs) \<or>
           name = attached (Names gs))"

text \<open>\<^verbatim>\<open>emit(core::MethodRef)\<close>.\<close>

definition emit_method ::
  "GlobalState \<Rightarrow> Exporter \<Rightarrow> MethodRef \<Rightarrow> ExporterState \<Rightarrow> ExporterState option" where
  "emit_method gs ex method st =
    (if Method method \<in> emittedSymbols st then Some st
     else if m_name (methodData gs method) = staticInit (Names gs) then Some st
     else
       let st1 = emittedSymbols_insert (Method method) st in
       if m_isPrivate (methodData gs method) then Some st1
       else
         case forEach (\<lambda>arg. enqueueSymbolsInType gs ex (a_type arg))
                (arguments (methodData gs method)) st1 of
           None \<Rightarrow> None
         | Some st2 \<Rightarrow>
             (case (if hasSig (methodData gs method)
                    then (case prettySigForMethod gs ex method NullType
                                 (m_resultType (methodData gs method)) None st2 of
                            None \<Rightarrow> None
                          | Some (sig, st3) \<Rightarrow> Some (out_println sig st3))
                    else Some st2) of
                None \<Rightarrow> None
              | Some st4 \<Rightarrow>
                  Some (declared (DeclMethod method)
                          (out_println (prettyDefForMethod gs method @ ''; end'') st4))))"

text \<open>\<^verbatim>\<open>emit(core::FieldRef, bool isCVar)\<close>. The static fields that are left out: the
  companion of a type template, and the static of an enum value.\<close>

definition field_isSynthetic :: "GlobalState \<Rightarrow> TypePtr \<Rightarrow> bool" where
  "field_isSynthetic gs resultType =
     (case resultType of
        AliasType symbol \<Rightarrow>
          isTypeMember symbol \<and>
          isSingletonClass
            (classData gs (asClassOrModuleRef (tm_owner (typeMemberData gs (symbolIndex symbol)))))
      | ClassType klass \<Rightarrow>
          superClass (classData gs (superClass (classData gs klass))) = T_Enum (Symbols gs)
      | _ \<Rightarrow> False)"

definition emit_field ::
  "GlobalState \<Rightarrow> FieldRef \<Rightarrow> bool \<Rightarrow> ExporterState \<Rightarrow> ExporterState" where
  "emit_field gs field isCVar st =
    (if isStaticField (fieldData gs field) then
       let resultType = f_resultType (fieldData gs field) in
       if resultType \<noteq> NullType \<and> field_isSynthetic gs resultType then st
       else if isCVar then
         declared (DeclField field)
           (out_println_fmt (nameShow gs (f_name (fieldData gs field)) @ '' = '' @
                             typeDeclaration gs resultType) st)
       else
         declared (DeclField field)
           (out_println_fmt (symbolShow gs (FieldOrStaticField field) @ '' = '' @
                             typeDeclaration gs resultType) st)
     else
       declared (DeclField field)
         (out_println_fmt (nameShow gs (f_name (fieldData gs field)) @ '' = '' @
                           typeDeclaration gs (f_resultType (fieldData gs field))) st))"

text \<open>\<^verbatim>\<open>emit(core::TypeMemberRef)\<close>.\<close>

definition emit_typeMember ::
  "GlobalState \<Rightarrow> TypeMemberRef \<Rightarrow> ExporterState \<Rightarrow> ExporterState" where
  "emit_typeMember gs tm st =
    (if TypeMember tm \<in> emittedSymbols st then st
     else
       let st1 = emittedSymbols_insert (TypeMember tm) st in
       if tm_name (typeMemberData gs tm) = AttachedClass (Names gs) then st1
       else if isSingletonClass
                 (classData gs (asClassOrModuleRef (tm_owner (typeMemberData gs tm))))
       then declared (DeclTypeMember tm)
              (out_println_fmt (nameShow gs (tm_name (typeMemberData gs tm)) @
                                '' = type_template('' @ showVariance gs tm @ '')'') st1)
       else declared (DeclTypeMember tm)
              (out_println_fmt (nameShow gs (tm_name (typeMemberData gs tm)) @
                                '' = type_member('' @ showVariance gs tm @ '')'') st1))"

text \<open>\<^verbatim>\<open>maybeEmitInitialized\<close>: the constructor, with the instance fields in its body.\<close>

definition emit_fields_indented :: "GlobalState \<Rightarrow> FieldRef list \<Rightarrow> ExporterState \<Rightarrow> ExporterState" where
  "emit_fields_indented gs pendingFields st =
     Indent_leave (fold (\<lambda>field. emit_field gs field False) pendingFields (Indent_enter st))"

definition maybeEmitInitialized ::
  "GlobalState \<Rightarrow> Exporter \<Rightarrow> MethodRef \<Rightarrow> FieldRef list \<Rightarrow> ExporterState
   \<Rightarrow> ExporterState option" where
  "maybeEmitInitialized gs ex method pendingFields st =
    (if pendingFields = [] \<and> \<not> ref_exists method then Some st
     else if ref_exists method \<and>
             superClass (classData gs (m_owner (methodData gs method))) = T_Struct (Symbols gs)
     then Some st
     else
       case (if ref_exists method then
               (case (if hasSig (methodData gs method)
                      then (case prettySigForMethod gs ex method NullType
                                   (m_resultType (methodData gs method)) None st of
                              None \<Rightarrow> None
                            | Some (sig, st1) \<Rightarrow> Some (out_println sig st1))
                      else Some st) of
                  None \<Rightarrow> None
                | Some st2 \<Rightarrow>
                    Some (prettyDefForMethod gs method, declared (DeclInitialize method) st2))
             else Some (''def initialize'', out_println ''sig {void}'' st)) of
         None \<Rightarrow> None
       | Some (methodDef, st3) \<Rightarrow>
           if pendingFields = [] then Some (out_println (methodDef @ ''; end'') st3)
           else Some (out_println ''end''
                        (emit_fields_indented gs pendingFields (out_println methodDef st3))))"


text \<open>\<^verbatim>\<open>emit(core::ClassOrModuleRef)\<close>, in the order of its blocks. The static field of
  a member loop: a class variable is printed at once, a constant is scheduled.\<close>

definition emit_staticField ::
  "GlobalState \<Rightarrow> Exporter \<Rightarrow> FieldRef \<Rightarrow> ExporterState \<Rightarrow> ExporterState option" where
  "emit_staticField gs ex field st =
     (if StartsWith (nameShow gs (f_name (fieldData gs field))) ''@@''
      then Some (emit_field gs field True st)
      else maybeEmit gs ex (FieldOrStaticField field) st)"

text \<open>The local variables of the member loop of the class.\<close>

record MemberLocals =
  initializeMethod :: MethodRef
  instanceFields :: "FieldRef list"
  pendingEnumValues :: "ClassOrModuleRef list"

definition emit_member ::
  "GlobalState \<Rightarrow> Exporter \<Rightarrow> ClassOrModuleRef \<Rightarrow> bool \<Rightarrow> NameRef \<times> SymbolRef
   \<Rightarrow> MemberLocals \<times> ExporterState \<Rightarrow> (MemberLocals \<times> ExporterState) option" where
  "emit_member gs ex klass isEnum entry acc =
    (let name = fst entry; member = snd entry; locals = fst acc; st = snd acc in
     if shouldSkipMember gs name then Some (locals, st)
     else case member of
       ClassOrModule memberKlass \<Rightarrow>
         if isEnum \<and> superClass (classData gs memberKlass) = klass
         then Some (locals\<lparr>pendingEnumValues := pendingEnumValues locals @ [memberKlass]\<rparr>, st)
         else map_option (Pair locals) (maybeEmit gs ex member st)
     | TypeMember tm \<Rightarrow> Some (locals, st)
     | TypeArgument ta \<Rightarrow> Some (locals, st)
     | Method m \<Rightarrow>
         if name = initialize (Names gs) then Some (locals\<lparr>initializeMethod := m\<rparr>, st)
         else map_option (Pair locals) (emit_method gs ex m st)
     | FieldOrStaticField field \<Rightarrow>
         if isField (fieldData gs field)
         then Some (locals\<lparr>instanceFields := instanceFields locals @ [field]\<rparr>, st)
         else map_option (Pair locals) (emit_staticField gs ex field st))"

definition emit_singletonMember ::
  "GlobalState \<Rightarrow> Exporter \<Rightarrow> bool \<Rightarrow> NameRef \<times> SymbolRef \<Rightarrow> ExporterState
   \<Rightarrow> ExporterState option" where
  "emit_singletonMember gs ex isEnum entry st =
    (let name = fst entry; member = snd entry in
     if shouldSkipMember gs name then Some st
     else case member of
       ClassOrModule memberKlass \<Rightarrow> maybeEmit gs ex member st
     | TypeMember tm \<Rightarrow> Some st
     | TypeArgument ta \<Rightarrow> Some st
     | Method m \<Rightarrow>
         if isEnum \<and> name = sealedSubclasses (Names gs) then Some st
         else emit_method gs ex m st
     | FieldOrStaticField field \<Rightarrow>
         if isField (fieldData gs field) then Some (emit_field gs field False st)
         else emit_staticField gs ex field st)"

definition emit_classHeader ::
  "GlobalState \<Rightarrow> Exporter \<Rightarrow> ClassOrModuleRef \<Rightarrow> ExporterState \<Rightarrow> ExporterState option" where
  "emit_classHeader gs ex klass st =
    (let defType = (if isClassOrModuleClass (classData gs klass) then ''class'' else ''module'');
         fullName = symbolShow gs (ClassOrModule klass);
         superKlass = superClass (classData gs klass)
     in case (if ref_exists superKlass \<and>
                 superKlass \<noteq> Sorbet_Private_Static_ImplicitModuleSuperClass (Symbols gs)
              then map_option (Pair ('' < '' @ symbolShow gs (ClassOrModule superKlass)))
                     (maybeEmit gs ex (ClassOrModule superKlass) st)
              else Some ([], st)) of
          None \<Rightarrow> None
        | Some (superClassString, st1) \<Rightarrow>
            Some (declared (DeclClass klass)
                    (out_println_fmt (defType @ '' '' @ fullName @ superClassString) st1)))"

definition emit_classFlags :: "GlobalState \<Rightarrow> ClassOrModuleRef \<Rightarrow> ExporterState \<Rightarrow> ExporterState" where
  "emit_classFlags gs klass st =
    (let st1 = (if isClassOrModuleAbstract (classData gs klass)
                then out_println ''abstract!'' st else st);
         st2 = (if isClassOrModuleFinal (classData gs klass)
                then out_println ''final!'' st1 else st1);
         st3 = (if isClassOrModuleInterface (classData gs klass)
                then out_println ''interface!'' st2 else st2)
     in if isClassOrModuleSealed (classData gs klass) then out_println ''sealed!'' st3 else st3)"

definition emit_mixin ::
  "GlobalState \<Rightarrow> Exporter \<Rightarrow> ClassOrModuleRef \<Rightarrow> ExporterState \<Rightarrow> ExporterState option" where
  "emit_mixin gs ex mixin st =
    (let keyword = (if isSingletonClass (classData gs mixin) then ''extend'' else ''include'')
     in maybeEmit gs ex (ClassOrModule mixin)
          (out_println_fmt (keyword @ '' '' @ symbolShow gs (ClassOrModule mixin)) st))"

definition emit_singletonMixin ::
  "GlobalState \<Rightarrow> Exporter \<Rightarrow> ClassOrModuleRef \<Rightarrow> ExporterState \<Rightarrow> ExporterState option" where
  "emit_singletonMixin gs ex mixin st =
     maybeEmit gs ex (ClassOrModule mixin)
       (out_println_fmt (''extend '' @ symbolShow gs (ClassOrModule mixin)) st)"

definition emit_singleton ::
  "GlobalState \<Rightarrow> Exporter \<Rightarrow> ClassOrModuleRef \<Rightarrow> bool \<Rightarrow> ExporterState \<Rightarrow> ExporterState option" where
  "emit_singleton gs ex klass isEnum st =
    (let singleton = lookupSingletonClass (classData gs klass) in
     if ref_exists singleton then
       case forEach (emit_singletonMixin gs ex) (mixins (classData gs singleton)) st of
         None \<Rightarrow> None
       | Some st1 \<Rightarrow>
           forEach (emit_singletonMember gs ex isEnum)
             (membersStableOrderSlow (classData gs singleton))
             (fold (emit_typeMember gs) (typeMembers (classData gs singleton)) st1)
     else Some st)"

definition emit_enumValues ::
  "GlobalState \<Rightarrow> bool \<Rightarrow> ClassOrModuleRef list \<Rightarrow> ExporterState \<Rightarrow> ExporterState" where
  "emit_enumValues gs isEnum enumValues st =
    (if isEnum \<and> enumValues \<noteq> [] then
       out_println ''end''
         (Indent_leave
            (fold (\<lambda>enumVal. out_println_fmt
                                (nameShow gs (c_name (classData gs enumVal)) @ '' = new''))
               enumValues (Indent_enter (out_println ''enums do'' st))))
     else st)"

definition emit_classBody ::
  "GlobalState \<Rightarrow> Exporter \<Rightarrow> ClassOrModuleRef \<Rightarrow> ExporterState \<Rightarrow> ExporterState option" where
  "emit_classBody gs ex klass st =
    (let isEnum = (superClass (classData gs klass) = T_Enum (Symbols gs)) in
     case emit_classHeader gs ex klass st of
       None \<Rightarrow> None
     | Some st1 \<Rightarrow>
     case forEach (emit_mixin gs ex) (mixins (classData gs klass))
            (emit_classFlags gs klass (Indent_enter st1)) of
       None \<Rightarrow> None
     | Some st2 \<Rightarrow>
     case forEach (emit_member gs ex klass isEnum) (membersStableOrderSlow (classData gs klass))
            (\<lparr>initializeMethod = 0, instanceFields = [], pendingEnumValues = []\<rparr>,
             fold (emit_typeMember gs) (typeMembers (classData gs klass)) st2) of
       None \<Rightarrow> None
     | Some (locals, st3) \<Rightarrow>
     case maybeEmitInitialized gs ex (initializeMethod locals) (instanceFields locals) st3 of
       None \<Rightarrow> None
     | Some st4 \<Rightarrow>
     case emit_singleton gs ex klass isEnum st4 of
       None \<Rightarrow> None
     | Some st5 \<Rightarrow>
         Some (out_println ''end''
                 (Indent_leave (emit_enumValues gs isEnum (pendingEnumValues locals) st5))))"

definition emit_class ::
  "GlobalState \<Rightarrow> Exporter \<Rightarrow> ClassOrModuleRef \<Rightarrow> ExporterState
   \<Rightarrow> (error + ExporterState) option" where
  "emit_class gs ex klass st =
    (case isInPackage gs ex (ClassOrModule klass) of
       None \<Rightarrow> None
     | Some inPackage \<Rightarrow>
         if \<not> inPackage \<or> ClassOrModule klass \<notin> emittedSymbols st then Some (Inl InvalidKlass)
         else if superClass (classData gs (superClass (classData gs klass))) = T_Enum (Symbols gs)
         then Some (Inr st)
         else map_option Inr (emit_classBody gs ex klass st))"

section \<open>The worklist\<close>

text \<open>The \<^verbatim>\<open>switch\<close> of \<^verbatim>\<open>emitLoop\<close> on the kind of the popped symbol.\<close>

definition emit_symbol ::
  "GlobalState \<Rightarrow> Exporter \<Rightarrow> SymbolRef \<Rightarrow> ExporterState \<Rightarrow> (error + ExporterState) option" where
  "emit_symbol gs ex symbol st =
    (case symbol of
       ClassOrModule klass \<Rightarrow> emit_class gs ex klass st
     | Method m \<Rightarrow> map_option Inr (emit_method gs ex m st)
     | FieldOrStaticField field \<Rightarrow> Some (Inr (emit_field gs field False st))
     | TypeMember tm \<Rightarrow> Some (Inr st)
     | TypeArgument ta \<Rightarrow> Some (Inr st))"

partial_function (option) emitLoop ::
  "GlobalState \<Rightarrow> Exporter \<Rightarrow> ExporterState \<Rightarrow> (error + ExporterState) option" where
  "emitLoop gs ex st =
    (if toEmit st = [] then Some (Inr st)
     else case emit_symbol gs ex (last (toEmit st)) (st\<lparr>toEmit := butlast (toEmit st)\<rparr>) of
            None \<Rightarrow> None
          | Some (Inl e) \<Rightarrow> Some (Inl e)
          | Some (Inr st1) \<Rightarrow> emitLoop gs ex st1)"

declare emitLoop.simps [code]

section \<open>One package\<close>

fun lookupFQN_from :: "GlobalState \<Rightarrow> SymbolRef \<Rightarrow> NameRef list \<Rightarrow> SymbolRef" where
  "lookupFQN_from gs scope [] = scope"
| "lookupFQN_from gs scope (name # fqn) =
     (if isClassOrModule scope then
        let result = findMember gs (asClassOrModuleRef scope) name in
        if \<not> symbol_exists result then ClassOrModule noClassOrModule
        else lookupFQN_from gs result fqn
      else ClassOrModule noClassOrModule)"

definition lookupFQN :: "GlobalState \<Rightarrow> NameRef list \<Rightarrow> SymbolRef" where
  "lookupFQN gs fqn = lookupFQN_from gs (ClassOrModule (root (Symbols gs))) fqn"

text \<open>\<^verbatim>\<open>RBIGenerator::RBIOutput\<close>, and beside each text the declarations printed into
  it.\<close>

record RBIOutput =
  baseFilePath :: string
  rbi :: string
  testRBI :: string
  rbiDeclared :: "Declaration list"
  testRBIDeclared :: "Declaration list"

definition newRBIOutput :: RBIOutput where
  "newRBIOutput =
     \<lparr>baseFilePath = [], rbi = [], testRBI = [], rbiDeclared = [], testRBIDeclared = []\<rparr>"

definition typed_header :: string where
  "typed_header = ''# typed: true'' @ NL @ NL"

text \<open>The first loop of \<^verbatim>\<open>RBIExporter::emit()\<close>: an export under the test namespace
  goes to the test exports.\<close>

definition sortExport ::
  "GlobalState \<Rightarrow> Exporter \<Rightarrow> NameRef list \<Rightarrow> SymbolRef list \<times> SymbolRef list
   \<Rightarrow> (SymbolRef list \<times> SymbolRef list) option" where
  "sortExport gs ex e acc =
    (let exportSymbol = lookupFQN gs e in
     if symbol_exists exportSymbol then
       (case isInTestPackage gs ex exportSymbol of
          None \<Rightarrow> None
        | Some inTest \<Rightarrow>
            if inTest then Some (fst acc, snd acc @ [exportSymbol])
            else Some (fst acc @ [exportSymbol], snd acc))
     else Some acc)"

definition resolveTestExports :: "GlobalState \<Rightarrow> NameRef list list \<Rightarrow> SymbolRef list" where
  "resolveTestExports gs rawTestExports =
     filter symbol_exists (map (lookupFQN gs) rawTestExports)"

definition emit_exports ::
  "GlobalState \<Rightarrow> Exporter \<Rightarrow> SymbolRef list \<Rightarrow> RBIOutput \<times> ExporterState
   \<Rightarrow> (error + RBIOutput \<times> ExporterState) option" where
  "emit_exports gs ex exports0 acc =
    (if exports0 \<noteq> [] then
       case forEach (maybeEmit gs ex) exports0 (snd acc) of
         None \<Rightarrow> None
       | Some st1 \<Rightarrow>
           (case emitLoop gs ex st1 of
              None \<Rightarrow> None
            | Some (Inl e) \<Rightarrow> Some (Inl e)
            | Some (Inr st2) \<Rightarrow>
                (case out_toString st2 of
                   (text, decls, st3) \<Rightarrow>
                     Some (Inr ((fst acc)\<lparr>rbi := typed_header @ text, rbiDeclared := decls\<rparr>,
                                st3))))
     else Some (Inr acc))"

definition emit_testExports ::
  "GlobalState \<Rightarrow> Exporter \<Rightarrow> SymbolRef list \<Rightarrow> RBIOutput \<times> ExporterState
   \<Rightarrow> (error + RBIOutput \<times> ExporterState) option" where
  "emit_testExports gs ex testExports0 acc =
    (if testExports0 \<noteq> [] then
       case forEach (maybeEmit gs ex) testExports0 (snd acc) of
         None \<Rightarrow> None
       | Some st1 \<Rightarrow>
           (case emitLoop gs ex st1 of
              None \<Rightarrow> None
            | Some (Inl e) \<Rightarrow> Some (Inl e)
            | Some (Inr st2) \<Rightarrow>
                (case out_toString st2 of
                   (rbiText, decls, st3) \<Rightarrow>
                     if rbiText \<noteq> []
                     then Some (Inr ((fst acc)\<lparr>testRBI := typed_header @ rbiText,
                                               testRBIDeclared := decls\<rparr>, st3))
                     else Some (Inr (fst acc, st3))))
     else Some (Inr acc))"

definition RBIExporter_emit ::
  "GlobalState \<Rightarrow> Exporter \<Rightarrow> ExporterState \<Rightarrow> (error + RBIOutput \<times> ExporterState) option" where
  "RBIExporter_emit gs ex st =
    (let output = newRBIOutput\<lparr>baseFilePath := nameShow gs (mangledName (pkg ex))\<rparr>
     in case forEach (sortExport gs ex) (exports (pkg ex)) ([], []) of
          None \<Rightarrow> None
        | Some (exports1, testExports1) \<Rightarrow>
            (case emit_exports gs ex exports1 (output, st) of
               None \<Rightarrow> None
             | Some (Inl e) \<Rightarrow> Some (Inl e)
             | Some (Inr acc) \<Rightarrow>
                 emit_testExports gs ex
                   (testExports1 @ resolveTestExports gs (testExports (pkg ex))) acc))"

text \<open>The constructor of \<^verbatim>\<open>RBIExporter\<close>, and the members it leaves empty.\<close>

definition getPkgTestNamespace :: "GlobalState \<Rightarrow> PackageInfo \<Rightarrow> ClassOrModuleRef" where
  "getPkgTestNamespace gs p = asClassOrModuleRef (lookupFQN gs (Test (Names gs) # fullName p))"

definition RBIExporter :: "GlobalState \<Rightarrow> PackageInfo \<Rightarrow> ClassOrModuleRef set \<Rightarrow> Exporter" where
  "RBIExporter gs p namespaces =
     \<lparr>pkg = p, pkgNamespace = asClassOrModuleRef (lookupFQN gs (fullName p)),
      pkgTestNamespace = getPkgTestNamespace gs p, pkgNamespaces = namespaces\<rparr>"

definition newExporterState :: ExporterState where
  "newExporterState =
     \<lparr>emittedSymbols = {}, toEmit = [],
      out = \<lparr>buffer = [], indent = 0, tabStr = []\<rparr>, inserted = [], rendered = []\<rparr>"

definition runOnce ::
  "GlobalState \<Rightarrow> NameRef \<Rightarrow> ClassOrModuleRef set \<Rightarrow> (error + RBIOutput) option" where
  "runOnce gs pkgName packageNamespaces =
     map_option (map_sum id fst)
       (RBIExporter_emit gs (RBIExporter gs (getPackageInfo gs pkgName) packageNamespaces)
          newExporterState)"


section \<open>Statements about the boundary test\<close>

text \<open>The three tests \<^verbatim>\<open>isInPackage\<close> makes on a symbol before it moves to the owner,
  and the \<open>n\<close>-th symbol of the owner chain.\<close>

definition atRootOrRegistry :: "GlobalState \<Rightarrow> SymbolRef \<Rightarrow> bool" where
  "atRootOrRegistry gs s =
     (s = ClassOrModule (root (Symbols gs)) \<or> s = ClassOrModule (PackageRegistry (Symbols gs)))"

definition atOwnNamespace :: "Exporter \<Rightarrow> SymbolRef \<Rightarrow> bool" where
  "atOwnNamespace ex s =
     (s = ClassOrModule (pkgNamespace ex) \<or> s = ClassOrModule (pkgTestNamespace ex))"

definition atRegisteredNamespace :: "Exporter \<Rightarrow> SymbolRef \<Rightarrow> bool" where
  "atRegisteredNamespace ex s = (isClassOrModule s \<and> asClassOrModuleRef s \<in> pkgNamespaces ex)"

definition decides :: "GlobalState \<Rightarrow> Exporter \<Rightarrow> SymbolRef \<Rightarrow> bool" where
  "decides gs ex s =
     (atRootOrRegistry gs s \<or> atOwnNamespace ex s \<or> atRegisteredNamespace ex s)"

fun ancestor :: "GlobalState \<Rightarrow> nat \<Rightarrow> SymbolRef \<Rightarrow> SymbolRef" where
  "ancestor gs 0 s = s"
| "ancestor gs (Suc n) s = ancestor gs n (symbol_owner gs s)"

section \<open>Statements about the type traversal\<close>

text \<open>The symbols \<^verbatim>\<open>enqueueSymbolsInType\<close> hands to \<^verbatim>\<open>maybeEmit\<close>, in the order of
  the calls: read off the \<^verbatim>\<open>switch\<close>, case by case.\<close>

fun symbolsEnqueued :: "TypePtr \<Rightarrow> SymbolRef list" where
  "symbolsEnqueued NullType = []"
| "symbolsEnqueued (AliasType symbol) = [symbol]"
| "symbolsEnqueued (AndType left right) = symbolsEnqueued left @ symbolsEnqueued right"
| "symbolsEnqueued (AppliedType klass targs) =
     ClassOrModule klass # concat (map symbolsEnqueued targs)"
| "symbolsEnqueued BlamedUntyped = []"
| "symbolsEnqueued (ClassType symbol) = [ClassOrModule symbol]"
| "symbolsEnqueued (LiteralType lit) = []"
| "symbolsEnqueued (MetaType wrapped) = symbolsEnqueued wrapped"
| "symbolsEnqueued (OrType left right) = symbolsEnqueued left @ symbolsEnqueued right"
| "symbolsEnqueued SelfType = []"
| "symbolsEnqueued (SelfTypeParam definition) = [definition]"
| "symbolsEnqueued (ShapeType keys vals) =
     concat (map symbolsEnqueued keys) @ concat (map symbolsEnqueued vals)"
| "symbolsEnqueued (TupleType elems) = concat (map symbolsEnqueued elems)"
| "symbolsEnqueued (TypeVar tv) = []"
| "symbolsEnqueued (UnresolvedAppliedType klass symbol targs) =
     ClassOrModule klass # ClassOrModule symbol # concat (map symbolsEnqueued targs)"
| "symbolsEnqueued UnresolvedClassType = []"
| "symbolsEnqueued (LambdaParam definition lowerBound upperBound) =
     symbolsEnqueued lowerBound @ symbolsEnqueued upperBound"

text \<open>The symbols the specification says the traversal schedules: every symbol embedded in
  the type, among them the class of a literal, if it has one, and the definition of a
  bounded parameter.\<close>

fun symbolsEmbedded :: "TypePtr \<Rightarrow> SymbolRef list" where
  "symbolsEmbedded NullType = []"
| "symbolsEmbedded (AliasType symbol) = [symbol]"
| "symbolsEmbedded (AndType left right) = symbolsEmbedded left @ symbolsEmbedded right"
| "symbolsEmbedded (AppliedType klass targs) =
     ClassOrModule klass # concat (map symbolsEmbedded targs)"
| "symbolsEmbedded BlamedUntyped = []"
| "symbolsEmbedded (ClassType symbol) = [ClassOrModule symbol]"
| "symbolsEmbedded (LiteralType lit) =
     (case lit of None \<Rightarrow> [] | Some klass \<Rightarrow> [ClassOrModule klass])"
| "symbolsEmbedded (MetaType wrapped) = symbolsEmbedded wrapped"
| "symbolsEmbedded (OrType left right) = symbolsEmbedded left @ symbolsEmbedded right"
| "symbolsEmbedded SelfType = []"
| "symbolsEmbedded (SelfTypeParam definition) = [definition]"
| "symbolsEmbedded (ShapeType keys vals) =
     concat (map symbolsEmbedded keys) @ concat (map symbolsEmbedded vals)"
| "symbolsEmbedded (TupleType elems) = concat (map symbolsEmbedded elems)"
| "symbolsEmbedded (TypeVar tv) = []"
| "symbolsEmbedded (UnresolvedAppliedType klass symbol targs) =
     ClassOrModule klass # ClassOrModule symbol # concat (map symbolsEmbedded targs)"
| "symbolsEmbedded UnresolvedClassType = []"
| "symbolsEmbedded (LambdaParam definition lowerBound upperBound) =
     TypeMember definition # symbolsEmbedded lowerBound @ symbolsEmbedded upperBound"

text \<open>The symbols \<^verbatim>\<open>emit(MethodRef)\<close> passes to \<^verbatim>\<open>maybeEmit\<close> for a method it
  prints: those of the type of every argument (the loop of \<^verbatim>\<open>emit(MethodRef)\<close>), and,
  when the method has a signature, those \<^verbatim>\<open>prettySigForMethod\<close> schedules: the symbols
  of the return type and of the substituted type of every argument the signature shows.\<close>

definition methodArgumentSymbols :: "GlobalState \<Rightarrow> MethodRef \<Rightarrow> SymbolRef list" where
  "methodArgumentSymbols gs m =
     concat (map (\<lambda>arg. symbolsEnqueued (a_type arg)) (arguments (methodData gs m)))"

definition signatureSymbols ::
  "GlobalState \<Rightarrow> MethodRef \<Rightarrow> TypePtr \<Rightarrow> TypePtr \<Rightarrow> TypeConstraint option \<Rightarrow> SymbolRef list" where
  "signatureSymbols gs m receiver retType0 constraint =
     (if \<not> ref_exists m then []
      else symbolsEnqueued (sig_retType gs m receiver retType0 constraint) @
           concat (map (\<lambda>argSym. symbolsEnqueued
                          (getResultType gs (a_type argSym) (Method m) receiver constraint))
                     (sig_shownArguments gs m)))"

definition scheduledByMethod :: "GlobalState \<Rightarrow> MethodRef \<Rightarrow> SymbolRef list" where
  "scheduledByMethod gs m =
     methodArgumentSymbols gs m @
     (if hasSig (methodData gs m)
      then signatureSymbols gs m NullType (m_resultType (methodData gs m)) None else [])"

text \<open>The symbols \<^verbatim>\<open>maybeEmit\<close> does not schedule themselves: for a singleton class it
  schedules the attached class.\<close>

definition isSingletonSymbol :: "GlobalState \<Rightarrow> SymbolRef \<Rightarrow> bool" where
  "isSingletonSymbol gs s =
     (isClassOrModule s \<and> isSingletonClass (classData gs (asClassOrModuleRef s)))"

section \<open>Statements about the formatters\<close>

text \<open>The text \<^verbatim>\<open>prettySigForMethod\<close> returns, as a function of the table and of the
  arguments of the call alone.\<close>

definition prettySigText ::
  "GlobalState \<Rightarrow> MethodRef \<Rightarrow> TypePtr \<Rightarrow> TypePtr \<Rightarrow> TypeConstraint option \<Rightarrow> string" where
  "prettySigText gs method receiver retType0 constraint =
     (if \<not> ref_exists method then []
      else sig_text gs method receiver (sig_retType gs method receiver retType0 constraint)
             constraint)"

text \<open>Scheduling returns: no call of \<^verbatim>\<open>maybeEmit\<close> runs forever (the owner chain of
  every symbol reaches a deciding symbol, and no chain of singleton classes is cyclic).\<close>

definition schedulingReturns :: "GlobalState \<Rightarrow> Exporter \<Rightarrow> bool" where
  "schedulingReturns gs ex = (\<forall>s st. maybeEmit gs ex s st \<noteq> None)"

section \<open>Statements about the emission state\<close>

text \<open>The declarations printed by a routine that consults \<open>emittedSymbols\<close> first: the
  class emitter (through the worklist), \<^verbatim>\<open>emit(MethodRef)\<close> and
  \<^verbatim>\<open>emit(TypeMemberRef)\<close>. The field emitter and the constructor printed by
  \<^verbatim>\<open>maybeEmitInitialized\<close> do not consult it.\<close>

fun guarded :: "Declaration \<Rightarrow> bool" where
  "guarded (DeclClass c) = True"
| "guarded (DeclMethod m) = True"
| "guarded (DeclTypeMember t) = True"
| "guarded (DeclInitialize m) = False"
| "guarded (DeclField f) = False"

text \<open>The invariant of the worklist loop. \<open>E0\<close> is the emitted set at the start of the
  pass, \<open>H\<close> the symbols taken off the worklist (or just inserted) whose declaration is
  still to be printed.\<close>

definition Inv ::
  "GlobalState \<Rightarrow> Exporter \<Rightarrow> SymbolRef set \<Rightarrow> SymbolRef set \<Rightarrow> ExporterState \<Rightarrow> bool" where
  "Inv gs ex E0 H st \<longleftrightarrow>
     E0 \<subseteq> emittedSymbols st \<and> H \<subseteq> emittedSymbols st - E0 \<and>
     set (toEmit st) \<subseteq> emittedSymbols st - E0 - H \<and> distinct (toEmit st) \<and>
     (\<forall>s\<in>set (toEmit st). isInPackage gs ex s = Some True) \<and>
     set (inserted st) = emittedSymbols st \<and> distinct (inserted st) \<and>
     distinct (map declSymbol (filter guarded (rendered st))) \<and>
     declSymbol ` set (filter guarded (rendered st))
       \<subseteq> emittedSymbols st - E0 - H - set (toEmit st) \<and>
     (\<forall>c. DeclClass c \<in> set (rendered st) \<longrightarrow> isInPackage gs ex (ClassOrModule c) = Some True)"

text \<open>What a pass leaves in a list of declarations: no class, method or type member twice,
  each of them inserted during the pass, every class in the package.\<close>

definition decls_ok ::
  "GlobalState \<Rightarrow> Exporter \<Rightarrow> SymbolRef set \<Rightarrow> SymbolRef set \<Rightarrow> Declaration list \<Rightarrow> bool" where
  "decls_ok gs ex E0 E ds \<longleftrightarrow>
     distinct (map declSymbol (filter guarded ds)) \<and>
     declSymbol ` set (filter guarded ds) \<subseteq> E - E0 \<and>
     (\<forall>c. DeclClass c \<in> set ds \<longrightarrow> isInPackage gs ex (ClassOrModule c) = Some True)"






section \<open>Example symbol tables\<close>

text \<open>The parts every example shares: the well-known symbols and names, type operations
  that leave a type as it is, and records with every flag off.\<close>

definition x_symbols :: Symbols where
  "x_symbols = \<lparr>root = 1, PackageRegistry = 2, T_Enum = 3, T_Struct = 4,
     Sorbet_Private_Static_ImplicitModuleSuperClass = 5, void_class = 6, untyped = 7\<rparr>"

definition x_names :: Names where
  "x_names = \<lparr>singleton = 1, attached = 2, AttachedClass = 3, staticInit = 4, initialize = 5,
     sealedSubclasses = 6, Test = 7\<rparr>"

definition x_types :: TypeOps where
  "x_types = \<lparr>is_proxy_type = (\<lambda>t. False), underlying = (\<lambda>t. t),
     resultTypeAsSeenFrom = (\<lambda>t a b c. t), replaceSelfType = (\<lambda>t r. t),
     instantiate = (\<lambda>t c. t)\<rparr>"

definition x_class ::
  "NameRef \<Rightarrow> ClassOrModuleRef \<Rightarrow> ClassOrModuleRef \<Rightarrow> bool \<Rightarrow> ClassOrModuleData" where
  "x_class n ow su isC =
     \<lparr>c_name = n, c_owner = ow, superClass = su, isClassOrModuleClass = isC,
      isClassOrModuleAbstract = False, isClassOrModuleFinal = False,
      isClassOrModuleInterface = False, isClassOrModuleSealed = False,
      isSingletonClass = False, attachedClass = 0, lookupSingletonClass = 0, mixins = [],
      typeMembers = [], membersStableOrderSlow = []\<rparr>"

definition x_blk :: ArgInfo where
  "x_blk = \<lparr>argumentName = ''<blk>'', a_type = NullType, a_isKeyword = False,
     a_isRepeated = False, a_isDefault = False, a_isBlock = True,
     isSyntheticBlockArgument = True\<rparr>"

definition x_arg :: "string \<Rightarrow> TypePtr \<Rightarrow> ArgInfo" where
  "x_arg n t = \<lparr>argumentName = n, a_type = t, a_isKeyword = False, a_isRepeated = False,
     a_isDefault = False, a_isBlock = False, isSyntheticBlockArgument = False\<rparr>"

definition x_method :: "NameRef \<Rightarrow> ClassOrModuleRef \<Rightarrow> MethodRef \<Rightarrow> MethodData" where
  "x_method n ow slf =
     \<lparr>m_name = n, m_owner = ow, m_isPrivate = False, m_isProtected = False,
      m_isFinal = False, m_isAbstract = False, m_isOverridable = False, m_isOverride = False,
      arguments = [x_blk], typeArguments = [], m_resultType = NullType, hasSig = False,
      dealiasMethod = slf\<rparr>"

definition x_field :: "NameRef \<Rightarrow> ClassOrModuleRef \<Rightarrow> bool \<Rightarrow> FieldData" where
  "x_field n ow inst =
     \<lparr>f_name = n, f_owner = ow, isField = inst, isStaticField = (\<not> inst),
      f_resultType = NullType\<rparr>"

definition x_nameShow :: "NameRef \<Rightarrow> string" where
  "x_nameShow n =
     (if n = 10 then ''P'' else if n = 11 then ''K'' else if n = 12 then ''foo''
      else if n = 13 then ''@x'' else if n = 7 then ''Test'' else if n = 14 then ''H''
      else if n = 15 then ''resize'' else if n = 16 then ''bar'' else if n = 17 then ''T''
      else if n = 18 then ''Color'' else if n = 19 then ''Red'' else if n = 8 then ''wide''
      else ''?'')"

definition x_typeShow :: "TypePtr \<Rightarrow> string" where
  "x_typeShow t =
     (if t = ClassType 8 then ''Integer'' else if t = ClassType 9 then ''T::Boolean''
      else ''T.untyped'')"

definition x_base :: GlobalState where
  "x_base =
     \<lparr>Symbols = x_symbols, Names = x_names, Types = x_types,
      enclosingClass = (\<lambda>s. 0),
      getPackageInfo =
        (\<lambda>n. \<lparr>fullName = [10], mangledName = 10, exports = [], testExports = []\<rparr>),
      classData = (\<lambda>c. x_class 0 1 0 True),
      methodData = (\<lambda>m. x_method 0 0 m),
      fieldData = (\<lambda>f. x_field 0 0 True),
      typeMemberData =
        (\<lambda>t. \<lparr>tm_name = 0, tm_owner = ClassOrModule 1, isFixed = False,
              variance = Invariant, tm_resultType = NullType\<rparr>),
      typeArgumentData = (\<lambda>t. \<lparr>ta_name = 0, ta_owner = Method 0\<rparr>),
      findMember = (\<lambda>c n. ClassOrModule 0),
      nameKind = (\<lambda>n. if n = 20 then UNIQUE
                      else if n \<in> {7, 10, 11, 14, 17, 18, 19} then CONSTANT else UTF8),
      nameShow = x_nameShow, nameToString = x_nameShow,
      symbolShow = (\<lambda>s. ''?''),
      typeShow = x_typeShow, typeToString = x_typeShow\<rparr>"

definition x_pkg :: "NameRef list list \<Rightarrow> NameRef list list \<Rightarrow> PackageInfo" where
  "x_pkg es ts = \<lparr>fullName = [10], mangledName = 10, exports = es, testExports = ts\<rparr>"

text \<open>\<open>worldK\<close>: a module \<^verbatim>\<open>P\<close> (class 10), the namespace of the package, and in it a
  class \<^verbatim>\<open>P::K\<close> (class 13) with the methods \<^verbatim>\<open>foo\<close> (method 21) and
  \<^verbatim>\<open>resize(w)\<close> (method 22, with a signature) and the instance field \<^verbatim>\<open>@x\<close>
  (field 31). The package exports \<^verbatim>\<open>P::K\<close>. Three more private methods named
  \<^verbatim>\<open>wide\<close> are not among the members the table lists: method 24 has five arguments,
  and methods 25 and 26 have one argument whose name makes the one-line signature 81 and 80
  characters long. Every type member is owned by \<^verbatim>\<open>P::K\<close>.\<close>

definition worldK :: GlobalState where
  "worldK = x_base\<lparr>
     getPackageInfo := (\<lambda>n. x_pkg [[10, 11]] []),
     classData :=
       (\<lambda>c. if c = 10
            then (x_class 10 1 5 False)\<lparr>membersStableOrderSlow := [(11, ClassOrModule 13)]\<rparr>
            else if c = 13
            then (x_class 11 10 0 True)
                   \<lparr>membersStableOrderSlow :=
                      [(12, Method 21), (15, Method 22), (13, FieldOrStaticField 31)]\<rparr>
            else x_class 0 1 0 True),
     methodData :=
       (\<lambda>m. if m = 21 then x_method 12 13 21
            else if m = 22
            then (x_method 15 13 22)
                   \<lparr>arguments := [x_arg ''w'' (ClassType 8), x_blk],
                    m_resultType := ClassType 9, hasSig := True\<rparr>
            else if m = 24
            then (x_method 8 13 24)
                   \<lparr>arguments := [x_arg ''a'' (ClassType 8), x_arg ''b'' (ClassType 8),
                                  x_arg ''c'' (ClassType 8), x_arg ''d'' (ClassType 8),
                                  x_arg ''e'' (ClassType 8), x_blk],
                    m_resultType := ClassType 6, hasSig := True, m_isPrivate := True\<rparr>
            else if m = 25
            then (x_method 8 13 25)
                   \<lparr>arguments := [x_arg (replicate 38 (CHR ''a'')) (ClassType 8), x_blk],
                    m_resultType := ClassType 9, hasSig := True, m_isPrivate := True\<rparr>
            else if m = 26
            then (x_method 8 13 26)
                   \<lparr>arguments := [x_arg (replicate 37 (CHR ''a'')) (ClassType 8), x_blk],
                    m_resultType := ClassType 9, hasSig := True, m_isPrivate := True\<rparr>
            else x_method 0 0 m),
     fieldData := (\<lambda>f. x_field 13 13 True),
     typeMemberData :=
       (\<lambda>t. \<lparr>tm_name = 0, tm_owner = ClassOrModule 13, isFixed = False,
             variance = Invariant, tm_resultType = NullType\<rparr>),
     findMember :=
       (\<lambda>c n. if c = 1 \<and> n = 10 then ClassOrModule 10
              else if c = 10 \<and> n = 11 then ClassOrModule 13
              else if c = 13 \<and> n = 13 then FieldOrStaticField 31
              else ClassOrModule 0),
     symbolShow :=
       (\<lambda>s. if s = ClassOrModule 10 then ''P'' else if s = ClassOrModule 13 then ''P::K''
            else ''?'')\<rparr>"

text \<open>\<open>worldS\<close>: the namespace \<^verbatim>\<open>P\<close> (class 10) is a module with a method
  \<^verbatim>\<open>def self.bar\<close> (method 23). The method is owned by the singleton class of
  \<^verbatim>\<open>P\<close> (class 14), and the owner of a singleton class is the owner of its attached
  class, here the root. The package exports \<^verbatim>\<open>P\<close>.\<close>

definition worldS :: GlobalState where
  "worldS = x_base\<lparr>
     getPackageInfo := (\<lambda>n. x_pkg [[10]] []),
     classData :=
       (\<lambda>c. if c = 10
            then (x_class 10 1 5 False)
                   \<lparr>lookupSingletonClass := 14,
                    membersStableOrderSlow := [(1, ClassOrModule 14)]\<rparr>
            else if c = 14
            then (x_class 20 1 0 True)
                   \<lparr>isSingletonClass := True, attachedClass := 10,
                    membersStableOrderSlow := [(2, ClassOrModule 10), (16, Method 23)]\<rparr>
            else x_class 0 1 0 True),
     methodData := (\<lambda>m. x_method 16 14 m),
     findMember := (\<lambda>c n. if c = 1 \<and> n = 10 then ClassOrModule 10 else ClassOrModule 0),
     symbolShow := (\<lambda>s. if s = ClassOrModule 10 then ''P'' else ''?'')\<rparr>"

text \<open>\<open>worldK_field\<close>: \<open>worldK\<close> with a package that exports \<^verbatim>\<open>P::K\<close> and the path
  \<^verbatim>\<open>P::K::@x\<close>, which resolves to the instance field.\<close>

definition worldK_field :: GlobalState where
  "worldK_field = worldK\<lparr>getPackageInfo := (\<lambda>n. x_pkg [[10, 11], [10, 11, 13]] [])\<rparr>"

text \<open>\<open>worldT\<close>: the namespace \<^verbatim>\<open>P\<close> (class 10) and the test namespace
  \<^verbatim>\<open>Test::P\<close> (class 12, in the module \<^verbatim>\<open>Test\<close>, class 11). \<^verbatim>\<open>P::K\<close>
  (class 13) has the superclass \<^verbatim>\<open>Test::P::H\<close> (class 15), and \<^verbatim>\<open>Test::P::T\<close>
  (class 18) has the superclass \<^verbatim>\<open>P::K\<close>. No class has members.\<close>

definition worldT :: GlobalState where
  "worldT = x_base\<lparr>
     classData :=
       (\<lambda>c. if c = 10 then x_class 10 1 5 False
            else if c = 11 then x_class 7 1 5 False
            else if c = 12 then x_class 10 11 5 False
            else if c = 13 then x_class 11 10 15 True
            else if c = 15 then x_class 14 12 0 True
            else if c = 18 then x_class 17 12 13 True
            else x_class 0 1 0 True),
     findMember :=
       (\<lambda>c n. if c = 1 \<and> n = 10 then ClassOrModule 10
              else if c = 1 \<and> n = 7 then ClassOrModule 11
              else if c = 11 \<and> n = 10 then ClassOrModule 12
              else if c = 10 \<and> n = 11 then ClassOrModule 13
              else if c = 12 \<and> n = 14 then ClassOrModule 15
              else if c = 12 \<and> n = 17 then ClassOrModule 18
              else ClassOrModule 0),
     symbolShow :=
       (\<lambda>s. if s = ClassOrModule 13 then ''P::K''
            else if s = ClassOrModule 15 then ''Test::P::H''
            else if s = ClassOrModule 18 then ''Test::P::T'' else ''?'')\<rparr>"

text \<open>The package of \<open>worldT\<close> that exports \<^verbatim>\<open>P::K\<close> and test-exports
  \<^verbatim>\<open>Test::P::T\<close>, and the one that lists \<^verbatim>\<open>P::K\<close> and \<^verbatim>\<open>Test::P::H\<close>
  among its regular exports.\<close>

definition worldT_tests :: GlobalState where
  "worldT_tests = worldT\<lparr>getPackageInfo := (\<lambda>n. x_pkg [[10, 11]] [[7, 10, 17]])\<rparr>"

definition worldT_mixed :: GlobalState where
  "worldT_mixed = worldT\<lparr>getPackageInfo := (\<lambda>n. x_pkg [[10, 11], [7, 10, 14]] [])\<rparr>"

text \<open>\<open>worldE\<close>: an enumeration \<^verbatim>\<open>P::Color\<close> (class 16, a subclass of
  \<^verbatim>\<open>T::Enum\<close>) with the value class \<^verbatim>\<open>P::Color::Red\<close> (class 17, a subclass of
  \<^verbatim>\<open>P::Color\<close>). The package exports the value class only.\<close>

definition worldE :: GlobalState where
  "worldE = x_base\<lparr>
     getPackageInfo := (\<lambda>n. x_pkg [[10, 18, 19]] []),
     classData :=
       (\<lambda>c. if c = 10 then x_class 10 1 5 False
            else if c = 16 then x_class 18 10 3 True
            else if c = 17 then x_class 19 16 16 True
            else x_class 0 1 0 True),
     findMember :=
       (\<lambda>c n. if c = 1 \<and> n = 10 then ClassOrModule 10
              else if c = 10 \<and> n = 18 then ClassOrModule 16
              else if c = 16 \<and> n = 19 then ClassOrModule 17
              else ClassOrModule 0),
     symbolShow :=
       (\<lambda>s. if s = ClassOrModule 16 then ''P::Color''
            else if s = ClassOrModule 17 then ''P::Color::Red'' else ''?'')\<rparr>"

text \<open>\<open>worldE_test\<close>: \<open>worldE\<close> with the value class as a test export instead.\<close>

definition worldE_test :: GlobalState where
  "worldE_test = worldE\<lparr>getPackageInfo := (\<lambda>n. x_pkg [] [[10, 18, 19]])\<rparr>"

text \<open>\<open>worldM\<close>: \<open>worldK\<close> with one more method of \<^verbatim>\<open>P::K\<close>, method 27,
  \<^verbatim>\<open>wide(k)\<close> with a signature, whose argument has the type \<^verbatim>\<open>P::K\<close>.\<close>

definition worldM :: GlobalState where
  "worldM = worldK\<lparr>
     methodData :=
       (\<lambda>m. if m = 27
            then (x_method 8 13 27)
                   \<lparr>arguments := [x_arg ''k'' (ClassType 13), x_blk],
                    m_resultType := ClassType 9, hasSig := True\<rparr>
            else methodData worldK m),
     typeShow := (\<lambda>t. if t = ClassType 13 then ''P::K'' else x_typeShow t)\<rparr>"

text \<open>\<open>worldT_only\<close>: \<open>worldT\<close> with a package whose only regular export is
  \<^verbatim>\<open>Test::P::H\<close>.\<close>

definition worldT_only :: GlobalState where
  "worldT_only = worldT\<lparr>getPackageInfo := (\<lambda>n. x_pkg [[7, 10, 14]] [])\<rparr>"

text \<open>The exporters \<^verbatim>\<open>runOnce\<close> builds for these tables. The registered namespaces are
  those \<^verbatim>\<open>buildPackageNamespace\<close> finds: the namespace of the package and, where the
  table has it, the test namespace.\<close>

definition worldK_ex :: Exporter where
  "worldK_ex = RBIExporter worldK (getPackageInfo worldK 10) {10}"

definition worldS_ex :: Exporter where
  "worldS_ex = RBIExporter worldS (getPackageInfo worldS 10) {10}"

definition worldT_tests_ex :: Exporter where
  "worldT_tests_ex = RBIExporter worldT_tests (getPackageInfo worldT_tests 10) {10, 12}"

definition worldT_mixed_ex :: Exporter where
  "worldT_mixed_ex = RBIExporter worldT_mixed (getPackageInfo worldT_mixed 10) {10, 12}"

definition worldM_ex :: Exporter where
  "worldM_ex = RBIExporter worldM (getPackageInfo worldM 10) {10}"

definition worldT_only_ex :: Exporter where
  "worldT_only_ex = RBIExporter worldT_only (getPackageInfo worldT_only 10) {10, 12}"

text \<open>The results of the run on \<open>worldK\<close>, and of the two passes of the run on
  \<open>worldT_tests\<close>.\<close>

definition worldK_out :: RBIOutput where
  "worldK_out =
     \<lparr>baseFilePath = ''P'',
      rbi = ''# typed: true'' @ NL @ NL @
            ''class P::K'' @ NL @
            ''  def foo; end'' @ NL @
            ''  sig {params(w: Integer).returns(T::Boolean)}'' @ NL @
            ''  def resize(w); end'' @ NL @
            ''  sig {void}'' @ NL @
            ''  def initialize'' @ NL @
            ''    @x = T.let(T.unsafe(nil), T.untyped)'' @ NL @
            ''  end'' @ NL @
            ''end'' @ NL,
      testRBI = [],
      rbiDeclared = [DeclClass 13, DeclMethod 21, DeclMethod 22, DeclField 31],
      testRBIDeclared = []\<rparr>"

definition worldK_st :: ExporterState where
  "worldK_st =
     \<lparr>emittedSymbols = {Method 22, Method 21, ClassOrModule 13}, toEmit = [],
      out = \<lparr>buffer = [], indent = 0, tabStr = []\<rparr>,
      inserted = [ClassOrModule 13, Method 21, Method 22], rendered = []\<rparr>"

definition worldT_out1 :: RBIOutput where
  "worldT_out1 =
     \<lparr>baseFilePath = ''P'',
      rbi = ''# typed: true'' @ NL @ NL @
            ''class P::K < Test::P::H'' @ NL @ ''end'' @ NL @
            ''class Test::P::H'' @ NL @ ''end'' @ NL,
      testRBI = [], rbiDeclared = [DeclClass 13, DeclClass 15], testRBIDeclared = []\<rparr>"

definition worldT_st1 :: ExporterState where
  "worldT_st1 =
     \<lparr>emittedSymbols = {ClassOrModule 15, ClassOrModule 13}, toEmit = [],
      out = \<lparr>buffer = [], indent = 0, tabStr = []\<rparr>,
      inserted = [ClassOrModule 13, ClassOrModule 15], rendered = []\<rparr>"

definition worldT_out2 :: RBIOutput where
  "worldT_out2 =
     worldT_out1
       \<lparr>testRBI := ''# typed: true'' @ NL @ NL @
                    ''class Test::P::T < P::K'' @ NL @ ''end'' @ NL,
        testRBIDeclared := [DeclClass 18]\<rparr>"

definition worldT_st2 :: ExporterState where
  "worldT_st2 =
     \<lparr>emittedSymbols = {ClassOrModule 18, ClassOrModule 15, ClassOrModule 13}, toEmit = [],
      out = \<lparr>buffer = [], indent = 0, tabStr = []\<rparr>,
      inserted = [ClassOrModule 13, ClassOrModule 15, ClassOrModule 18], rendered = []\<rparr>"

section \<open>Evaluation\<close>

lemma replicate_numeral_unfold: "replicate (numeral k) x = x # replicate (pred_numeral k) x"
  by (simp add: numeral_eq_Suc)

lemmas model_defs = RBIExporter_emit_def RBIExporter_def getPkgTestNamespace_def lookupFQN_def
  sortExport_def resolveTestExports_def emit_exports_def emit_testExports_def newRBIOutput_def
  newExporterState_def emit_symbol_def emit_class_def emit_classBody_def emit_classHeader_def
  emit_classFlags_def emit_mixin_def emit_singleton_def emit_singletonMixin_def
  emit_enumValues_def emit_member_def emit_singletonMember_def emit_staticField_def
  maybeEmitInitialized_def emit_fields_indented_def emit_typeMember_def emit_field_def
  field_isSynthetic_def emit_method_def shouldSkipMember_def typeDeclaration_def
  showVariance_def prettyDefForMethod_def def_format_def def_prettyArg_def
  prettySigForMethod_def sig_text_def sig_oneline_for_def sig_multiline_for_def
  sig_multiline_def sig_oneline_def
  sig_typeAndArgNames_def sig_shownArguments_def sig_typeArguments_def sig_flags_def
  sig_sigCall_def sig_methodReturnType_def sig_retType_def MAX_PRETTY_WIDTH_def
  MAX_PRETTY_SIG_ARGS_def getResultType_def Types_void_def untypedUntracked_def
  out_toString_def Indent_leave_def Indent_enter_def out_println_def out_println_fmt_def
  declared_def emittedSymbols_insert_def println_def println_fmt_def untab_def tab_def
  resetTabString_def StrReplaceAll_newline_def StartsWith_def NL_def typed_header_def
  symbol_exists_def ref_exists_def noClassOrModule_def asClassOrModuleRef_def runOnce_def
  isInPackage.simps isInTestPackage.simps maybeEmit.simps emitLoop.simps Let_def
  replicate_numeral_unfold

lemmas world_defs = worldM_def worldM_ex_def worldT_only_def worldT_only_ex_def worldK_ex_def worldS_ex_def worldT_tests_ex_def worldT_mixed_ex_def
  worldK_out_def worldK_st_def worldT_out1_def worldT_st1_def worldT_out2_def worldT_st2_def
  worldK_def worldK_field_def worldS_def worldT_def worldT_tests_def
  worldT_mixed_def worldE_def worldE_test_def x_pkg_def x_base_def x_typeShow_def x_nameShow_def x_field_def
  x_method_def x_arg_def x_blk_def x_class_def x_types_def x_names_def x_symbols_def

section \<open>The boundary test is a first-match test\<close>

lemma isInPackage_decides:
  "decides gs ex s \<Longrightarrow>
   isInPackage gs ex s = Some (\<not> atRootOrRegistry gs s \<and> atOwnNamespace ex s)"
  by (subst isInPackage.simps)
     (auto simp: decides_def atRootOrRegistry_def atOwnNamespace_def atRegisteredNamespace_def)

lemma isInPackage_step:
  "\<not> decides gs ex s \<Longrightarrow> isInPackage gs ex s = isInPackage gs ex (symbol_owner gs s)"
  by (subst isInPackage.simps)
     (auto simp: decides_def atRootOrRegistry_def atOwnNamespace_def atRegisteredNamespace_def)

text \<open>C6. Let the \<open>n\<close>-th symbol of the owner chain of \<open>klass\<close> be the first one that is the
  root, the package registry, a namespace of this package or a registered namespace. Then
  \<^verbatim>\<open>isInPackage\<close> returns, and its answer is read off that symbol alone: false when it is
  the root or the registry, true when it is this package's namespace or test namespace,
  false when it is another registered namespace.\<close>

theorem isInPackage_first_match:
  assumes "\<forall>i<n. \<not> decides gs ex (ancestor gs i klass)"
    and "decides gs ex (ancestor gs n klass)"
  shows "isInPackage gs ex klass =
         Some (\<not> atRootOrRegistry gs (ancestor gs n klass) \<and>
               atOwnNamespace ex (ancestor gs n klass))"
  using assms
proof (induction n arbitrary: klass)
  case 0
  then show ?case by (simp add: isInPackage_decides)
next
  case (Suc n)
  from Suc.prems(1) have nd: "\<not> decides gs ex klass"
    by (metis ancestor.simps(1) zero_less_Suc)
  from Suc.prems(1) have "\<forall>i<n. \<not> decides gs ex (ancestor gs i (symbol_owner gs klass))"
    by (metis Suc_less_eq ancestor.simps(2))
  with Suc.IH [of "symbol_owner gs klass"] Suc.prems(2)
  show ?case by (simp add: isInPackage_step [OF nd])
qed

text \<open>In \<open>worldK\<close> the method \<^verbatim>\<open>foo\<close> is owned by \<^verbatim>\<open>P::K\<close>, which is owned by the
  namespace \<^verbatim>\<open>P\<close>: the second owner decides, and the method is in the package.\<close>

theorem isInPackage_first_match_witness:
  "decides worldK worldK_ex (ancestor worldK (Suc (Suc 0)) (Method 21)) \<and>
   isInPackage worldK worldK_ex (Method 21) = Some True"
  using isInPackage_first_match [of "Suc (Suc 0)" worldK worldK_ex "Method 21"]
  by (simp add: All_less_Suc decides_def atRootOrRegistry_def atOwnNamespace_def
        atRegisteredNamespace_def world_defs RBIExporter_def getPkgTestNamespace_def
        lookupFQN_def symbol_exists_def ref_exists_def noClassOrModule_def
        asClassOrModuleRef_def)

section \<open>The invariant of the worklist\<close>

text \<open>The five ways a routine changes the fields the invariant reads: a push, an insertion
  without a push, a printed declaration, a pop, and the end of a pass.\<close>

lemma Inv_out [simp]: "Inv gs ex E0 H (st\<lparr>out := x\<rparr>) = Inv gs ex E0 H st"
  by (simp add: Inv_def)

lemma Inv_held: "Inv gs ex E0 H st \<Longrightarrow> x \<in> H \<Longrightarrow> x \<in> emittedSymbols st"
  by (auto simp: Inv_def)

lemma Inv_weaken: "Inv gs ex E0 H st \<Longrightarrow> H' \<subseteq> H \<Longrightarrow> Inv gs ex E0 H' st"
  unfolding Inv_def by auto

lemma Inv_push:
  assumes "Inv gs ex E0 H st" "s \<notin> emittedSymbols st" "isInPackage gs ex s = Some True"
  shows "Inv gs ex E0 H ((emittedSymbols_insert s st)\<lparr>toEmit := toEmit st @ [s]\<rparr>)"
  using assms unfolding Inv_def emittedSymbols_insert_def by auto

lemma Inv_insert:
  assumes "Inv gs ex E0 H st" "s \<notin> emittedSymbols st"
  shows "Inv gs ex E0 (insert s H) (emittedSymbols_insert s st)"
  using assms unfolding Inv_def emittedSymbols_insert_def by auto

lemma Inv_declared_guarded:
  assumes "Inv gs ex E0 H st" "declSymbol d \<in> H" "guarded d"
    and "\<And>c. d = DeclClass c \<Longrightarrow> isInPackage gs ex (ClassOrModule c) = Some True"
  shows "Inv gs ex E0 (H - {declSymbol d}) (declared d st)"
  using assms unfolding Inv_def declared_def by auto

lemma Inv_declared_unguarded:
  "\<not> guarded d \<Longrightarrow> Inv gs ex E0 H (declared d st) = Inv gs ex E0 H st"
  unfolding Inv_def declared_def by (cases d) auto

lemma Inv_pop:
  assumes "Inv gs ex E0 H st" "toEmit st \<noteq> []"
  shows "Inv gs ex E0 (insert (last (toEmit st)) H) (st\<lparr>toEmit := butlast (toEmit st)\<rparr>)"
    and "isInPackage gs ex (last (toEmit st)) = Some True"
proof -
  obtain xs x where xs: "toEmit st = xs @ [x]"
    using assms(2) by (metis append_butlast_last_id)
  show "Inv gs ex E0 (insert (last (toEmit st)) H) (st\<lparr>toEmit := butlast (toEmit st)\<rparr>)"
    using assms(1) unfolding Inv_def xs by auto
  show "isInPackage gs ex (last (toEmit st)) = Some True"
    using assms(1) unfolding Inv_def xs by simp
qed

lemma Inv_new_pass:
  assumes "Inv gs ex E0 H st" "toEmit st = []"
  shows "Inv gs ex (emittedSymbols st) {} (st\<lparr>out := x, rendered := []\<rparr>)"
  using assms unfolding Inv_def by simp

text \<open>\<^verbatim>\<open>maybeEmit\<close> leaves the state as it is or pushes one symbol that was not emitted
  and is in the package. Every routine the class emitter calls keeps the invariant.\<close>

lemma maybeEmit_cases:
  assumes "maybeEmit gs ex symbol st = Some st'"
  shows "st' = st \<or>
     (\<exists>s. s \<notin> emittedSymbols st \<and> isInPackage gs ex s = Some True \<and>
          st' = (emittedSymbols_insert s st)\<lparr>toEmit := toEmit st @ [s]\<rparr>)"
  by (rule maybeEmit.raw_induct
        [where P = "\<lambda>gs ex symbol st st'. st' = st \<or>
           (\<exists>s. s \<notin> emittedSymbols st \<and> isInPackage gs ex s = Some True \<and>
             st' = (emittedSymbols_insert s st)\<lparr>toEmit := toEmit st @ [s]\<rparr>)", OF _ assms])
     (auto split: if_splits option.splits)

lemma maybeEmit_Inv:
  "maybeEmit gs ex symbol st = Some st' \<Longrightarrow> Inv gs ex E0 H st \<Longrightarrow> Inv gs ex E0 H st'"
  by (auto dest!: maybeEmit_cases intro: Inv_push)

lemma maybeEmit_out:
  "maybeEmit gs ex symbol st = Some st' \<Longrightarrow> out st' = out st \<and> rendered st' = rendered st"
  by (auto dest!: maybeEmit_cases simp: emittedSymbols_insert_def)

lemma forEach_preserves:
  assumes "forEach f xs st = Some st'" "P st"
    and "\<And>x s s'. x \<in> set xs \<Longrightarrow> P s \<Longrightarrow> f x s = Some s' \<Longrightarrow> P s'"
  shows "P st'"
  using assms
proof (induction xs arbitrary: st)
  case Nil
  then show ?case by simp
next
  case (Cons a xs)
  from Cons.prems(1) obtain s1 where s1: "f a st = Some s1" "forEach f xs s1 = Some st'"
    by (auto split: option.splits)
  have "P s1"
    by (rule Cons.prems(3) [OF _ Cons.prems(2) s1(1)]) simp
  show ?case
  proof (rule Cons.IH [OF s1(2) \<open>P s1\<close>])
    fix x s s' assume "x \<in> set xs" "P s" "f x s = Some s'"
    then show "P s'" using Cons.prems(3) [of x s s'] by simp
  qed
qed

lemma forEach_append:
  "forEach f (xs @ ys) st =
     (case forEach f xs st of None \<Rightarrow> None | Some st1 \<Rightarrow> forEach f ys st1)"
  by (induction xs arbitrary: st) (auto split: option.splits)

lemma forEach_concat_map:
  assumes "\<And>t s. t \<in> set ts \<Longrightarrow> f t s = forEach g (h t) s"
  shows "forEach f ts st = forEach g (concat (map h ts)) st"
  using assms
proof (induction ts arbitrary: st)
  case Nil
  then show ?case by simp
next
  case (Cons t ts)
  have "forEach f ts s = forEach g (concat (map h ts)) s" for s
    by (rule Cons.IH) (simp add: Cons.prems)
  then show ?case
    by (simp add: forEach_append Cons.prems split: option.splits)
qed

lemma enqueueSymbolsInType_preserves:
  assumes "\<And>x s s'. maybeEmit gs ex x s = Some s' \<Longrightarrow> P s \<Longrightarrow> P s'"
  shows "enqueueSymbolsInType gs ex t st = Some st' \<Longrightarrow> P st \<Longrightarrow> P st'"
  using assms
proof (induction gs ex t st arbitrary: st' rule: enqueueSymbolsInType.induct)
  case (4 gs ex klass targs st)
  from "4.prems"(1) obtain st1 where
    st1: "maybeEmit gs ex (ClassOrModule klass) st = Some st1"
    and st': "forEach (enqueueSymbolsInType gs ex) targs st1 = Some st'"
    by (auto split: option.splits)
  have "P st1" using st1 "4.prems"(2) by (rule "4.prems"(3))
  with st' show ?case
    by (rule forEach_preserves) (use "4.IH" "4.prems"(3) st1 in blast)
next
  case (12 gs ex keys vals st)
  from "12.prems"(1) obtain st1 where
    st1: "forEach (enqueueSymbolsInType gs ex) keys st = Some st1"
    and st': "forEach (enqueueSymbolsInType gs ex) vals st1 = Some st'"
    by (auto split: option.splits)
  have "P st1"
    using st1 "12.prems"(2)
    by (rule forEach_preserves) (use "12.IH"(1) "12.prems"(3) in blast)
  with st' show ?case
    by (rule forEach_preserves) (use "12.IH"(2) "12.prems"(3) st1 in blast)
next
  case (13 gs ex elems st)
  from "13.prems"(1) have "forEach (enqueueSymbolsInType gs ex) elems st = Some st'" by simp
  then show ?case using "13.prems"(2)
    by (rule forEach_preserves) (use "13.IH" "13.prems"(3) in blast)
next
  case (15 gs ex klass symbol targs st)
  from "15.prems"(1) obtain st1 st2 where
    st1: "maybeEmit gs ex (ClassOrModule klass) st = Some st1"
    and st2: "maybeEmit gs ex (ClassOrModule symbol) st1 = Some st2"
    and st': "forEach (enqueueSymbolsInType gs ex) targs st2 = Some st'"
    by (auto split: option.splits)
  have "P st2"
    using st1 st2 "15.prems"(2,3) by blast
  with st' show ?case
    by (rule forEach_preserves) (use "15.IH" "15.prems"(3) st1 st2 in blast)
next
  case (3 gs ex left right st)
  then show ?case by (auto split: option.splits)
next
  case (9 gs ex left right st)
  then show ?case by (auto split: option.splits)
next
  case (17 gs ex dfn lowerBound upperBound st)
  then show ?case by (auto split: option.splits)
qed auto

lemma enqueueSymbolsInType_Inv:
  "enqueueSymbolsInType gs ex t st = Some st' \<Longrightarrow> Inv gs ex E0 H st \<Longrightarrow> Inv gs ex E0 H st'"
  by (rule enqueueSymbolsInType_preserves [where P = "Inv gs ex E0 H"]) (rule maybeEmit_Inv)

lemma Inv_println [simp]:
  "Inv gs ex E0 H (out_println s st) = Inv gs ex E0 H st"
  "Inv gs ex E0 H (out_println_fmt s st) = Inv gs ex E0 H st"
  "Inv gs ex E0 H (Indent_enter st) = Inv gs ex E0 H st"
  "Inv gs ex E0 H (Indent_leave st) = Inv gs ex E0 H st"
  by (simp_all add: out_println_def out_println_fmt_def Indent_enter_def Indent_leave_def)

lemma prettySigForMethod_Inv:
  assumes "prettySigForMethod gs ex m receiver retType constraint st = Some (txt, st')"
    and "Inv gs ex E0 H st"
  shows "Inv gs ex E0 H st'"
proof (cases "ref_exists m")
  case False
  with assms show ?thesis by (simp add: prettySigForMethod_def)
next
  case True
  let ?rt = "sig_retType gs m receiver retType constraint"
  from assms(1) True obtain st1 where
    st1: "(if ?rt \<noteq> NullType then enqueueSymbolsInType gs ex ?rt st else Some st) = Some st1"
    and st2: "forEach (\<lambda>argSym. enqueueSymbolsInType gs ex
                (getResultType gs (a_type argSym) (Method m) receiver constraint))
              (sig_shownArguments gs m) st1 = Some st'"
    by (auto simp: prettySigForMethod_def Let_def split: option.splits)
  have "Inv gs ex E0 H st1"
    using st1 assms(2) by (auto split: if_splits elim: enqueueSymbolsInType_Inv)
  with st2 show ?thesis
    by (rule forEach_preserves) (auto elim: enqueueSymbolsInType_Inv)
qed

lemma emit_method_Inv:
  assumes "emit_method gs ex m st = Some st'" and "Inv gs ex E0 H st"
  shows "Inv gs ex E0 H st'"
proof (cases "Method m \<in> emittedSymbols st \<or> m_name (methodData gs m) = staticInit (Names gs)")
  case True
  with assms show ?thesis by (auto simp: emit_method_def split: if_splits)
next
  case False
  let ?st1 = "emittedSymbols_insert (Method m) st"
  have notH: "Method m \<notin> H" using False assms(2) by (auto dest: Inv_held)
  have i1: "Inv gs ex E0 (insert (Method m) H) ?st1"
    using assms(2) False by (simp add: Inv_insert)
  show ?thesis
  proof (cases "m_isPrivate (methodData gs m)")
    case True
    with assms(1) False have "st' = ?st1" by (simp add: emit_method_def)
    with i1 show ?thesis by (auto elim: Inv_weaken)
  next
    case np: False
    from assms(1) False np obtain st2 st4 where
      st2: "forEach (\<lambda>arg. enqueueSymbolsInType gs ex (a_type arg))
              (arguments (methodData gs m)) ?st1 = Some st2"
      and st4: "(if hasSig (methodData gs m)
                 then (case prettySigForMethod gs ex m NullType
                              (m_resultType (methodData gs m)) None st2 of
                         None \<Rightarrow> None
                       | Some (sig, st3) \<Rightarrow> Some (out_println sig st3))
                 else Some st2) = Some st4"
      and st': "st' = declared (DeclMethod m)
                        (out_println (prettyDefForMethod gs m @ ''; end'') st4)"
      by (auto simp: emit_method_def Let_def split: option.splits)
    have i2: "Inv gs ex E0 (insert (Method m) H) st2"
      using st2 i1 by (rule forEach_preserves) (auto elim: enqueueSymbolsInType_Inv)
    have i4: "Inv gs ex E0 (insert (Method m) H) st4"
      using st4 i2
      by (auto split: if_splits option.splits
               dest: prettySigForMethod_Inv [where ?E0.0 = E0 and H = "insert (Method m) H"])
    have "Inv gs ex E0 (insert (Method m) H - {declSymbol (DeclMethod m)}) st'"
      unfolding st' by (rule Inv_declared_guarded) (use i4 in auto)
    then show ?thesis using notH by simp
  qed
qed

lemma emit_typeMember_Inv:
  assumes "Inv gs ex E0 H st"
  shows "Inv gs ex E0 H (emit_typeMember gs tm st)"
proof (cases "TypeMember tm \<in> emittedSymbols st")
  case True
  with assms show ?thesis by (simp add: emit_typeMember_def)
next
  case False
  let ?st1 = "emittedSymbols_insert (TypeMember tm) st"
  have notH: "TypeMember tm \<notin> H" using False assms(1) by (auto dest: Inv_held)
  have i1: "Inv gs ex E0 (insert (TypeMember tm) H) ?st1"
    using assms(1) False by (simp add: Inv_insert)
  have d: "Inv gs ex E0 H (declared (DeclTypeMember tm) (out_println_fmt s ?st1))" for s
  proof -
    have "Inv gs ex E0 (insert (TypeMember tm) H - {declSymbol (DeclTypeMember tm)})
            (declared (DeclTypeMember tm) (out_println_fmt s ?st1))"
      by (rule Inv_declared_guarded) (use i1 in auto)
    then show ?thesis using notH by simp
  qed
  show ?thesis
    using False i1 d
    by (auto simp: emit_typeMember_def Let_def
             elim: Inv_weaken [where H = "insert (TypeMember tm) H"])
qed

lemma emit_field_Inv [simp]:
  "Inv gs ex E0 H (emit_field gs field isCVar st) = Inv gs ex E0 H st"
  by (simp add: emit_field_def Let_def Inv_declared_unguarded)

lemma fold_emit_field_Inv [simp]:
  "Inv gs ex E0 H (fold (\<lambda>field. emit_field gs field b) fs st) = Inv gs ex E0 H st"
  by (induction fs arbitrary: st) simp_all

lemma fold_emit_typeMember_Inv:
  "Inv gs ex E0 H st \<Longrightarrow> Inv gs ex E0 H (fold (emit_typeMember gs) tms st)"
  by (induction tms arbitrary: st) (simp_all add: emit_typeMember_Inv)

lemma fold_println_Inv [simp]:
  "Inv gs ex E0 H (fold (\<lambda>x. out_println_fmt (f x)) xs st) = Inv gs ex E0 H st"
  by (induction xs arbitrary: st) simp_all

lemma maybeEmitInitialized_Inv:
  assumes "maybeEmitInitialized gs ex m fs st = Some st'" and "Inv gs ex E0 H st"
  shows "Inv gs ex E0 H st'"
proof -
  have sig: "Inv gs ex E0 H st1"
    if "prettySigForMethod gs ex m NullType (m_resultType (methodData gs m)) None st
          = Some (sg, st1)" for sg st1
    using that assms(2) by (rule prettySigForMethod_Inv)
  show ?thesis
    using assms sig
    by (auto simp: maybeEmitInitialized_def emit_fields_indented_def Inv_declared_unguarded
             split: if_splits option.splits)
qed

lemma emit_staticField_Inv:
  "emit_staticField gs ex field st = Some st' \<Longrightarrow> Inv gs ex E0 H st \<Longrightarrow> Inv gs ex E0 H st'"
  by (auto simp: emit_staticField_def split: if_splits elim: maybeEmit_Inv)

lemma emit_member_Inv:
  assumes "emit_member gs ex klass isEnum entry acc = Some acc'" and "Inv gs ex E0 H (snd acc)"
  shows "Inv gs ex E0 H (snd acc')"
  using assms
  by (auto simp: emit_member_def Let_def
           split: if_splits SymbolRef.splits
           elim: maybeEmit_Inv emit_method_Inv emit_staticField_Inv)

lemma emit_singletonMember_Inv:
  assumes "emit_singletonMember gs ex isEnum entry st = Some st'" and "Inv gs ex E0 H st"
  shows "Inv gs ex E0 H st'"
  using assms
  by (auto simp: emit_singletonMember_def Let_def
           split: if_splits SymbolRef.splits
           elim: maybeEmit_Inv emit_method_Inv emit_staticField_Inv)

lemma emit_mixin_Inv:
  "emit_mixin gs ex mixin st = Some st' \<Longrightarrow> Inv gs ex E0 H st \<Longrightarrow> Inv gs ex E0 H st'"
  unfolding emit_mixin_def Let_def by (erule maybeEmit_Inv) simp

lemma emit_singletonMixin_Inv:
  "emit_singletonMixin gs ex mixin st = Some st' \<Longrightarrow> Inv gs ex E0 H st \<Longrightarrow> Inv gs ex E0 H st'"
  unfolding emit_singletonMixin_def by (erule maybeEmit_Inv) simp

lemma emit_singleton_Inv:
  assumes "emit_singleton gs ex klass isEnum st = Some st'" and "Inv gs ex E0 H st"
  shows "Inv gs ex E0 H st'"
proof (cases "ref_exists (lookupSingletonClass (classData gs klass))")
  case False
  with assms show ?thesis by (simp add: emit_singleton_def)
next
  case True
  let ?s = "lookupSingletonClass (classData gs klass)"
  from assms(1) True obtain st1 where
    st1: "forEach (emit_singletonMixin gs ex) (mixins (classData gs ?s)) st = Some st1"
    and st': "forEach (emit_singletonMember gs ex isEnum)
                (membersStableOrderSlow (classData gs ?s))
                (fold (emit_typeMember gs) (typeMembers (classData gs ?s)) st1) = Some st'"
    by (auto simp: emit_singleton_def Let_def split: option.splits)
  have "Inv gs ex E0 H st1"
    using st1 assms(2) by (rule forEach_preserves) (auto elim: emit_singletonMixin_Inv)
  then have "Inv gs ex E0 H (fold (emit_typeMember gs) (typeMembers (classData gs ?s)) st1)"
    by (rule fold_emit_typeMember_Inv)
  with st' show ?thesis
    by (rule forEach_preserves) (auto elim: emit_singletonMember_Inv)
qed

lemma emit_enumValues_Inv [simp]:
  "Inv gs ex E0 H (emit_enumValues gs isEnum vs st) = Inv gs ex E0 H st"
  by (simp add: emit_enumValues_def)

lemma emit_classFlags_Inv [simp]:
  "Inv gs ex E0 H (emit_classFlags gs klass st) = Inv gs ex E0 H st"
  by (simp add: emit_classFlags_def Let_def)

lemma emit_classHeader_Inv:
  assumes "Inv gs ex E0 (insert (ClassOrModule k) H) st" and "ClassOrModule k \<notin> H"
    and "isInPackage gs ex (ClassOrModule k) = Some True"
    and "emit_classHeader gs ex k st = Some st'"
  shows "Inv gs ex E0 H st'"
proof -
  from assms(4) obtain s st1 where
    st1: "st1 = st \<or> (\<exists>c. maybeEmit gs ex (ClassOrModule c) st = Some st1)"
    and st': "st' = declared (DeclClass k) (out_println_fmt s st1)"
    by (auto simp: emit_classHeader_def Let_def split: if_splits option.splits)
  from st1 assms(1) have "Inv gs ex E0 (insert (ClassOrModule k) H) st1"
    by (auto elim: maybeEmit_Inv)
  then have "Inv gs ex E0 (insert (ClassOrModule k) H - {declSymbol (DeclClass k)}) st'"
    unfolding st' by (intro Inv_declared_guarded) (use assms(3) in auto)
  then show ?thesis using assms(2) by simp
qed

lemma emit_classBody_Inv:
  assumes "Inv gs ex E0 (insert (ClassOrModule k) H) st" and "ClassOrModule k \<notin> H"
    and "isInPackage gs ex (ClassOrModule k) = Some True"
    and "emit_classBody gs ex k st = Some st'"
  shows "Inv gs ex E0 H st'"
proof -
  let ?isEnum = "superClass (classData gs k) = T_Enum (Symbols gs)"
  from assms(4) obtain st1 st2 locals st3 st4 st5 where
    st1: "emit_classHeader gs ex k st = Some st1"
    and st2: "forEach (emit_mixin gs ex) (mixins (classData gs k))
               (emit_classFlags gs k (Indent_enter st1)) = Some st2"
    and st3: "forEach (emit_member gs ex k ?isEnum) (membersStableOrderSlow (classData gs k))
            (\<lparr>initializeMethod = 0, instanceFields = [], pendingEnumValues = []\<rparr>,
             fold (emit_typeMember gs) (typeMembers (classData gs k)) st2) = Some (locals, st3)"
    and st4: "maybeEmitInitialized gs ex (initializeMethod locals) (instanceFields locals) st3
               = Some st4"
    and st5: "emit_singleton gs ex k ?isEnum st4 = Some st5"
    and st': "st' = out_println ''end''
                 (Indent_leave (emit_enumValues gs ?isEnum (pendingEnumValues locals) st5))"
    by (auto simp: emit_classBody_def Let_def split: option.splits)
  have i1: "Inv gs ex E0 H st1"
    using assms(1-3) st1 by (rule emit_classHeader_Inv)
  have i2: "Inv gs ex E0 H st2"
    using st2 by (rule forEach_preserves) (use i1 in \<open>auto elim: emit_mixin_Inv\<close>)
  have "Inv gs ex E0 H (snd (locals, st3))"
    using st3
    by (rule forEach_preserves [where P = "\<lambda>acc. Inv gs ex E0 H (snd acc)"])
       (use i2 in \<open>auto elim: emit_member_Inv simp: fold_emit_typeMember_Inv\<close>)
  then have "Inv gs ex E0 H st4"
    using st4 by (auto elim: maybeEmitInitialized_Inv)
  with st5 have "Inv gs ex E0 H st5"
    by (rule emit_singleton_Inv)
  then show ?thesis by (simp add: st')
qed

lemma emit_class_Inv:
  assumes "Inv gs ex E0 (insert (ClassOrModule k) H) st" and "ClassOrModule k \<notin> H"
    and "isInPackage gs ex (ClassOrModule k) = Some True"
    and "emit_class gs ex k st = Some r"
  shows "\<exists>st'. r = Inr st' \<and> Inv gs ex E0 H st'"
proof -
  have "ClassOrModule k \<in> emittedSymbols st"
    using assms(1) by (auto dest: Inv_held)
  with assms show ?thesis
    by (auto simp: emit_class_def split: if_splits
             elim: Inv_weaken [where H = "insert (ClassOrModule k) H"]
             dest: emit_classBody_Inv [where ?E0.0 = E0 and H = H])
qed

lemma Inv_drop: "Inv gs ex E0 H st \<Longrightarrow> Inv gs ex E0 {} st"
  by (erule Inv_weaken) simp

lemma emit_symbol_Inv:
  assumes "Inv gs ex E0 {s} st" and "isInPackage gs ex s = Some True"
    and "emit_symbol gs ex s st = Some r"
  shows "\<exists>st'. r = Inr st' \<and> Inv gs ex E0 {} st'"
proof (cases s)
  case (ClassOrModule k)
  with assms show ?thesis
    using emit_class_Inv [of gs ex E0 k "{}" st r] by (simp add: emit_symbol_def)
next
  case (Method m)
  with assms show ?thesis
    by (auto simp: emit_symbol_def
             dest!: emit_method_Inv [where ?E0.0 = E0 and H = "{s}"]
             elim: Inv_drop)
qed (use assms in \<open>auto simp: emit_symbol_def elim: Inv_drop\<close>)

lemma emitLoop_Inv:
  assumes "emitLoop gs ex st = Some r"
  shows "Inv gs ex E0 {} st \<longrightarrow> (\<exists>st'. r = Inr st' \<and> Inv gs ex E0 {} st' \<and> toEmit st' = [])"
proof (rule emitLoop.raw_induct
    [where P = "\<lambda>gs ex st r. Inv gs ex E0 {} st \<longrightarrow>
                  (\<exists>st'. r = Inr st' \<and> Inv gs ex E0 {} st' \<and> toEmit st' = [])", OF _ assms])
  fix emitLoop' gs ex st r
  assume IH: "\<And>gs ex st r. emitLoop' gs ex st = Some r \<Longrightarrow>
                Inv gs ex E0 {} st \<longrightarrow>
                (\<exists>st'. r = Inr st' \<and> Inv gs ex E0 {} st' \<and> toEmit st' = [])"
    and step: "(if toEmit st = [] then Some (Inr st)
       else case emit_symbol gs ex (last (toEmit st)) (st\<lparr>toEmit := butlast (toEmit st)\<rparr>) of
              None \<Rightarrow> None
            | Some (Inl e) \<Rightarrow> Some (Inl e)
            | Some (Inr st1) \<Rightarrow> emitLoop' gs ex st1) = Some r"
  show "Inv gs ex E0 {} st \<longrightarrow> (\<exists>st'. r = Inr st' \<and> Inv gs ex E0 {} st' \<and> toEmit st' = [])"
  proof
    assume inv: "Inv gs ex E0 {} st"
    show "\<exists>st'. r = Inr st' \<and> Inv gs ex E0 {} st' \<and> toEmit st' = []"
    proof (cases "toEmit st = []")
      case True
      with step inv show ?thesis by auto
    next
      case False
      let ?s = "last (toEmit st)" and ?st0 = "st\<lparr>toEmit := butlast (toEmit st)\<rparr>"
      from False step obtain r1 where r1: "emit_symbol gs ex ?s ?st0 = Some r1"
        by (auto split: option.splits)
      have "Inv gs ex E0 {?s} ?st0" "isInPackage gs ex ?s = Some True"
        using Inv_pop [OF inv False] by simp_all
      from emit_symbol_Inv [OF this r1] obtain st1 where
        st1: "r1 = Inr st1" "Inv gs ex E0 {} st1" by auto
      with False step r1 have "emitLoop' gs ex st1 = Some r" by simp
      from IH [OF this] st1(2) show ?thesis by simp
    qed
  qed
qed

section \<open>What the emitters schedule, and what they keep\<close>

text \<open>The traversal of a type, the argument loop and the signature formatter are sequences
  of calls of \<^verbatim>\<open>maybeEmit\<close>; \<^verbatim>\<open>emit(MethodRef)\<close> is one insertion, one such
  sequence and two printed lines.\<close>

lemma enqueueSymbolsInType_forEach:
  "enqueueSymbolsInType gs ex t st = forEach (maybeEmit gs ex) (symbolsEnqueued t) st"
proof (induction gs ex t st rule: enqueueSymbolsInType.induct)
  case (4 gs ex klass targs st)
  have "forEach (enqueueSymbolsInType gs ex) targs s =
        forEach (maybeEmit gs ex) (concat (map symbolsEnqueued targs)) s"
    if "maybeEmit gs ex (ClassOrModule klass) st = Some s0" for s s0
    by (rule forEach_concat_map) (use 4 that in blast)
  then show ?case by (auto split: option.splits)
next
  case (12 gs ex keys vals st)
  have k: "forEach (enqueueSymbolsInType gs ex) keys s =
        forEach (maybeEmit gs ex) (concat (map symbolsEnqueued keys)) s" for s
    by (rule forEach_concat_map) (use 12 in blast)
  have "forEach (enqueueSymbolsInType gs ex) vals s =
        forEach (maybeEmit gs ex) (concat (map symbolsEnqueued vals)) s"
    if "forEach (enqueueSymbolsInType gs ex) keys st = Some s0" for s s0
    by (rule forEach_concat_map) (use 12 that in blast)
  then show ?case by (auto simp: forEach_append k split: option.splits)
next
  case (13 gs ex elems st)
  show ?case by simp (rule forEach_concat_map, use 13 in blast)
next
  case (15 gs ex klass symbol targs st)
  have "forEach (enqueueSymbolsInType gs ex) targs s =
        forEach (maybeEmit gs ex) (concat (map symbolsEnqueued targs)) s"
    if "maybeEmit gs ex (ClassOrModule klass) st = Some s0"
       "maybeEmit gs ex (ClassOrModule symbol) s0 = Some s1" for s s0 s1
    by (rule forEach_concat_map) (use 15 that in blast)
  then show ?case by (auto split: option.splits)
qed (auto simp: forEach_append split: option.splits)

lemma forEach_arguments:
  "forEach (\<lambda>arg. enqueueSymbolsInType gs ex (f arg)) args st =
   forEach (maybeEmit gs ex) (concat (map (\<lambda>arg. symbolsEnqueued (f arg)) args)) st"
  by (rule forEach_concat_map) (rule enqueueSymbolsInType_forEach)

lemma prettySigForMethod_forEach:
  "prettySigForMethod gs ex m receiver retType0 constraint st =
   map_option (Pair (prettySigText gs m receiver retType0 constraint))
     (forEach (maybeEmit gs ex) (signatureSymbols gs m receiver retType0 constraint) st)"
  by (auto simp: prettySigForMethod_def prettySigText_def signatureSymbols_def Let_def
        forEach_arguments forEach_append enqueueSymbolsInType_forEach
      split: option.splits)

lemma emit_method_exact:
  "emit_method gs ex m st =
    (if Method m \<in> emittedSymbols st \<or> m_name (methodData gs m) = staticInit (Names gs)
     then Some st
     else if m_isPrivate (methodData gs m) then Some (emittedSymbols_insert (Method m) st)
     else map_option
            (\<lambda>st2. declared (DeclMethod m)
               (out_println (prettyDefForMethod gs m @ ''; end'')
                  (if hasSig (methodData gs m)
                   then out_println
                          (prettySigText gs m NullType (m_resultType (methodData gs m)) None) st2
                   else st2)))
            (forEach (maybeEmit gs ex) (scheduledByMethod gs m)
               (emittedSymbols_insert (Method m) st)))"
  by (auto simp: emit_method_def Let_def scheduledByMethod_def methodArgumentSymbols_def
        forEach_arguments forEach_append prettySigForMethod_forEach
      split: option.splits)

lemma maybeEmit_direct:
  assumes "maybeEmit gs ex s st = Some st'" and "\<not> isSingletonSymbol gs s"
    and "isInPackage gs ex s = Some True"
  shows "s \<in> emittedSymbols st'"
  using assms
  by (subst (asm) maybeEmit.simps)
     (auto simp: isSingletonSymbol_def emittedSymbols_insert_def split: if_splits)

lemma forEach_maybeEmit_scheduled:
  assumes "forEach (maybeEmit gs ex) xs st = Some st'"
  shows "emittedSymbols st \<subseteq> emittedSymbols st' \<and>
         (\<exists>new. toEmit st' = toEmit st @ new \<and> set new = emittedSymbols st' - emittedSymbols st) \<and>
         (\<forall>s\<in>set xs. \<not> isSingletonSymbol gs s \<and> isInPackage gs ex s = Some True \<longrightarrow>
                      s \<in> emittedSymbols st')"
  using assms
proof (induction xs arbitrary: st)
  case Nil
  then show ?case by simp
next
  case (Cons x xs)
  from Cons.prems obtain s1 where
    s1: "maybeEmit gs ex x st = Some s1" and r: "forEach (maybeEmit gs ex) xs s1 = Some st'"
    by (auto split: option.splits)
  from maybeEmit_cases [OF s1]
  have step: "emittedSymbols st \<subseteq> emittedSymbols s1 \<and>
        (\<exists>new. toEmit s1 = toEmit st @ new \<and> set new = emittedSymbols s1 - emittedSymbols st)"
    by (auto simp: emittedSymbols_insert_def)
  from Cons.IH [OF r]
  have ih: "emittedSymbols s1 \<subseteq> emittedSymbols st'"
    "\<exists>new. toEmit st' = toEmit s1 @ new \<and> set new = emittedSymbols st' - emittedSymbols s1"
    "\<forall>s\<in>set xs. \<not> isSingletonSymbol gs s \<and> isInPackage gs ex s = Some True \<longrightarrow>
                      s \<in> emittedSymbols st'"
    by auto
  from step obtain n1 where n1: "toEmit s1 = toEmit st @ n1"
    "set n1 = emittedSymbols s1 - emittedSymbols st" by auto
  from ih(2) obtain n2 where n2: "toEmit st' = toEmit s1 @ n2"
    "set n2 = emittedSymbols st' - emittedSymbols s1" by auto
  have "toEmit st' = toEmit st @ (n1 @ n2) \<and>
        set (n1 @ n2) = emittedSymbols st' - emittedSymbols st"
    using n1 n2 step ih(1) by auto
  then have new: "\<exists>new. toEmit st' = toEmit st @ new \<and>
                    set new = emittedSymbols st' - emittedSymbols st"
    by blast
  have "x \<in> emittedSymbols st'"
    if "\<not> isSingletonSymbol gs x" "isInPackage gs ex x = Some True"
    using maybeEmit_direct [OF s1 that] ih(1) by auto
  with step ih new show ?case by auto
qed































section \<open>The passes of a run\<close>

text \<open>A pass, and the two passes of a run that starts from the empty state.\<close>

lemma decls_ok_Nil [simp]: "decls_ok gs ex E0 E []"
  by (simp add: decls_ok_def)

lemma Inv_decls_ok: "Inv gs ex E0 {} st \<Longrightarrow> decls_ok gs ex E0 (emittedSymbols st) (rendered st)"
  unfolding Inv_def decls_ok_def by auto

lemma Inv_inserted: "Inv gs ex E0 H st \<Longrightarrow> set (inserted st) = emittedSymbols st \<and> distinct (inserted st)"
  by (simp add: Inv_def)

lemma Inv_base: "Inv gs ex E0 H st \<Longrightarrow> E0 \<subseteq> emittedSymbols st"
  by (simp add: Inv_def)

lemma Inv_newExporterState: "Inv gs ex {} {} newExporterState"
  by (simp add: Inv_def newExporterState_def)

lemma Inv_restart:
  "Inv gs ex E0 {} st \<Longrightarrow> toEmit st = [] \<Longrightarrow> rendered st = [] \<Longrightarrow>
   Inv gs ex (emittedSymbols st) {} st"
  by (simp add: Inv_def)

lemma pass_Inv:
  assumes "forEach (maybeEmit gs ex) xs st = Some st1" and "emitLoop gs ex st1 = Some r"
    and "Inv gs ex E0 {} st"
  shows "\<exists>st2. r = Inr st2 \<and> Inv gs ex E0 {} st2 \<and> toEmit st2 = []"
proof -
  have "Inv gs ex E0 {} st1"
    using assms(1,3) by (rule forEach_preserves) (auto elim: maybeEmit_Inv)
  with emitLoop_Inv [OF assms(2), of E0] show ?thesis by simp
qed

lemma out_toString_Inv:
  assumes "Inv gs ex E0 {} st" and "toEmit st = []" and "out_toString st = (text, decls, st')"
  shows "Inv gs ex (emittedSymbols st) {} st' \<and> toEmit st' = [] \<and> rendered st' = [] \<and>
         buffer (out st') = [] \<and> emittedSymbols st' = emittedSymbols st \<and>
         decls_ok gs ex E0 (emittedSymbols st) decls"
proof -
  from assms(3) have st': "st' = st\<lparr>out := (out st)\<lparr>buffer := []\<rparr>, rendered := []\<rparr>"
    and decls: "decls = rendered st"
    by (auto simp: out_toString_def)
  have "Inv gs ex (emittedSymbols st) {} st'"
    unfolding st' using assms(1,2) by (rule Inv_new_pass)
  then show ?thesis
    using assms(1,2) Inv_decls_ok [OF assms(1)] by (simp add: st' decls)
qed

lemma emit_exports_facts:
  assumes "emit_exports gs ex xs (output, st) = Some r"
    and "Inv gs ex (emittedSymbols st) {} st" and "toEmit st = []" and "rendered st = []"
    and "buffer (out st) = []" and "rbiDeclared output = []"
  shows "\<exists>output' st'. r = Inr (output', st') \<and>
           Inv gs ex (emittedSymbols st') {} st' \<and> toEmit st' = [] \<and> rendered st' = [] \<and>
           buffer (out st') = [] \<and> emittedSymbols st \<subseteq> emittedSymbols st' \<and>
           decls_ok gs ex (emittedSymbols st) (emittedSymbols st') (rbiDeclared output') \<and>
           testRBIDeclared output' = testRBIDeclared output"
proof (cases "xs = []")
  case True
  with assms show ?thesis
    by (auto simp: emit_exports_def)
next
  case False
  with assms(1) obtain st1 r1 where
    st1: "forEach (maybeEmit gs ex) xs st = Some st1" and r1: "emitLoop gs ex st1 = Some r1"
    by (auto simp: emit_exports_def split: option.splits)
  from pass_Inv [OF st1 r1 assms(2)] obtain st2 where
    st2: "r1 = Inr st2" "Inv gs ex (emittedSymbols st) {} st2" "toEmit st2 = []" by auto
  obtain tx decls st3 where ts: "out_toString st2 = (tx, decls, st3)"
    by (cases "out_toString st2") auto
  from False assms(1) st1 r1 st2(1) ts
  have r: "r = Inr (output\<lparr>rbi := typed_header @ tx, rbiDeclared := decls\<rparr>, st3)"
    by (simp add: emit_exports_def)
  from out_toString_Inv [OF st2(2,3) ts] Inv_base [OF st2(2)] show ?thesis
    by (auto simp: r)
qed

lemma emit_testExports_facts:
  assumes "emit_testExports gs ex xs (output, st) = Some r"
    and "Inv gs ex (emittedSymbols st) {} st" and "toEmit st = []" and "rendered st = []"
    and "testRBIDeclared output = []"
  shows "\<exists>output' st'. r = Inr (output', st') \<and>
           Inv gs ex (emittedSymbols st') {} st' \<and> toEmit st' = [] \<and>
           emittedSymbols st \<subseteq> emittedSymbols st' \<and>
           decls_ok gs ex (emittedSymbols st) (emittedSymbols st') (testRBIDeclared output') \<and>
           rbiDeclared output' = rbiDeclared output"
proof (cases "xs = []")
  case True
  with assms show ?thesis
    by (auto simp: emit_testExports_def)
next
  case False
  with assms(1) obtain st1 r1 where
    st1: "forEach (maybeEmit gs ex) xs st = Some st1" and r1: "emitLoop gs ex st1 = Some r1"
    by (auto simp: emit_testExports_def split: option.splits)
  from pass_Inv [OF st1 r1 assms(2)] obtain st2 where
    st2: "r1 = Inr st2" "Inv gs ex (emittedSymbols st) {} st2" "toEmit st2 = []" by auto
  obtain tx decls st3 where ts: "out_toString st2 = (tx, decls, st3)"
    by (cases "out_toString st2") auto
  from False assms(1) st1 r1 st2(1) ts
  have r: "r = Inr (if tx \<noteq> []
                    then (output\<lparr>testRBI := typed_header @ tx, testRBIDeclared := decls\<rparr>, st3)
                    else (output, st3))"
    by (auto simp: emit_testExports_def split: if_splits)
  from out_toString_Inv [OF st2(2,3) ts] Inv_base [OF st2(2)] assms(5) show ?thesis
    by (auto simp: r)
qed

lemma RBIExporter_emit_facts:
  assumes "RBIExporter_emit gs ex newExporterState = Some r"
  shows "\<exists>output (st1::ExporterState) st. r = Inr (output, st) \<and>
           decls_ok gs ex {} (emittedSymbols st1) (rbiDeclared output) \<and>
           decls_ok gs ex (emittedSymbols st1) (emittedSymbols st) (testRBIDeclared output) \<and>
           emittedSymbols st1 \<subseteq> emittedSymbols st \<and>
           set (inserted st) = emittedSymbols st \<and> distinct (inserted st)"
proof -
  let ?o = "newRBIOutput\<lparr>baseFilePath := nameShow gs (mangledName (pkg ex))\<rparr>"
  from assms obtain xs ts r1 where
    r1: "emit_exports gs ex xs (?o, newExporterState) = Some r1"
    and r: "(case r1 of Inl e \<Rightarrow> Some (Inl e)
             | Inr acc \<Rightarrow> emit_testExports gs ex ts acc) = Some r"
    by (auto simp: RBIExporter_emit_def Let_def split: option.splits)
  have "Inv gs ex (emittedSymbols newExporterState) {} newExporterState"
    using Inv_newExporterState [of gs ex] by (simp add: newExporterState_def)
  from emit_exports_facts [OF r1 this]
  obtain output1 st1 where
    p1: "r1 = Inr (output1, st1)" "Inv gs ex (emittedSymbols st1) {} st1" "toEmit st1 = []"
        "rendered st1 = []"
        "decls_ok gs ex (emittedSymbols newExporterState) (emittedSymbols st1)
           (rbiDeclared output1)"
        "testRBIDeclared output1 = []"
    by (auto simp: newExporterState_def newRBIOutput_def)
  from r p1(1) have "emit_testExports gs ex ts (output1, st1) = Some r" by simp
  from emit_testExports_facts [OF this p1(2,3,4,6)]
  obtain output2 st2 where
    p2: "r = Inr (output2, st2)" "Inv gs ex (emittedSymbols st2) {} st2"
        "emittedSymbols st1 \<subseteq> emittedSymbols st2"
        "decls_ok gs ex (emittedSymbols st1) (emittedSymbols st2) (testRBIDeclared output2)"
        "rbiDeclared output2 = rbiDeclared output1"
    by auto
  from p1(5) have "decls_ok gs ex {} (emittedSymbols st1) (rbiDeclared output2)"
    by (simp add: p2(5) newExporterState_def)
  with p2 Inv_inserted [OF p2(2)]
  have "r = Inr (output2, st2) \<and>
        decls_ok gs ex {} (emittedSymbols st1) (rbiDeclared output2) \<and>
        decls_ok gs ex (emittedSymbols st1) (emittedSymbols st2) (testRBIDeclared output2) \<and>
        emittedSymbols st1 \<subseteq> emittedSymbols st2 \<and>
        set (inserted st2) = emittedSymbols st2 \<and> distinct (inserted st2)"
    by simp
  then show ?thesis by - (rule exI)+
qed






text \<open>The runs on the example tables.\<close>

lemma worldK_run:
  "RBIExporter_emit worldK worldK_ex newExporterState = Some (Inr (worldK_out, worldK_st))"
  by (simp add: model_defs world_defs)






section \<open>Boundary closure\<close>

text \<open>C1, as amended. A run from the empty state never takes the fatal branch of the class
  emitter, and every class declared in either blob is in the package: \<^verbatim>\<open>maybeEmit\<close>
  pushes a symbol only when \<^verbatim>\<open>isInPackage\<close> holds for it and inserts it into
  \<open>emittedSymbols\<close> at the same time, so both tests at the top of the class emitter succeed
  for every class popped from the worklist. (Methods, type members and fields of a declared
  class are printed without a boundary test, and are outside this statement.)\<close>

theorem worklist_classes_in_package:
  assumes "RBIExporter_emit gs ex newExporterState = Some r"
  shows "\<exists>output st. r = Inr (output, st) \<and>
           (\<forall>c. DeclClass c \<in> set (rbiDeclared output) \<union> set (testRBIDeclared output) \<longrightarrow>
                isInPackage gs ex (ClassOrModule c) = Some True)"
  using RBIExporter_emit_facts [OF assms] unfolding decls_ok_def by auto

theorem worklist_classes_in_package_witness:
  "RBIExporter_emit worldK worldK_ex newExporterState = Some (Inr (worldK_out, worldK_st)) \<and>
   rbiDeclared worldK_out = [DeclClass 13, DeclMethod 21, DeclMethod 22, DeclField 31] \<and>
   isInPackage worldK worldK_ex (ClassOrModule 13) = Some True"
  using worklist_classes_in_package [OF worldK_run]
  by (simp add: worldK_run worldK_out_def)

text \<open>The claim as stated fails on \<open>worldS\<close>: the run declares the method
  \<^verbatim>\<open>def self.bar\<close> of the namespace module, and \<^verbatim>\<open>isInPackage\<close> is false for that
  method, whose owner chain goes from the singleton class of \<^verbatim>\<open>P\<close> to the root.\<close>

theorem member_not_in_package_counterexample:
  "runOnce worldS 10 {10} =
     Some (Inr \<lparr>baseFilePath = ''P'',
       rbi = ''# typed: true'' @ NL @ NL @
             ''module P'' @ NL @
             ''  def self.bar; end'' @ NL @
             ''end'' @ NL,
       testRBI = [], rbiDeclared = [DeclClass 10, DeclMethod 23], testRBIDeclared = []\<rparr>) \<and>
   isInPackage worldS worldS_ex (Method 23) = Some False"
  by (simp add: model_defs world_defs)

section \<open>No duplicates\<close>

text \<open>C2, as amended. In a run from the empty state every call of
  \<^verbatim>\<open>emittedSymbols.insert\<close> inserts a symbol that is not yet in the set, and no class,
  method printed by \<^verbatim>\<open>emit(MethodRef)\<close> or type member is declared twice, in either blob
  or across the two. (The field emitter and the constructor printed by
  \<^verbatim>\<open>maybeEmitInitialized\<close> do not consult \<open>emittedSymbols\<close>, and are outside this
  statement.)\<close>

theorem guarded_declarations_once:
  assumes "RBIExporter_emit gs ex newExporterState = Some r"
  shows "\<exists>output st. r = Inr (output, st) \<and>
           distinct (inserted st) \<and> set (inserted st) = emittedSymbols st \<and>
           distinct (map declSymbol
                      (filter guarded (rbiDeclared output @ testRBIDeclared output)))"
proof -
  from RBIExporter_emit_facts [OF assms] obtain outp and st1 :: ExporterState and st where
    f: "r = Inr (outp, st)"
       "decls_ok gs ex {} (emittedSymbols st1) (rbiDeclared outp)"
       "decls_ok gs ex (emittedSymbols st1) (emittedSymbols st) (testRBIDeclared outp)"
       "set (inserted st) = emittedSymbols st" "distinct (inserted st)"
    by blast
  have "distinct (map declSymbol
                   (filter guarded (rbiDeclared outp @ testRBIDeclared outp)))"
    using f(2,3) unfolding decls_ok_def by auto
  with f show ?thesis by simp
qed

theorem guarded_declarations_once_witness:
  "RBIExporter_emit worldK worldK_ex newExporterState = Some (Inr (worldK_out, worldK_st)) \<and>
   inserted worldK_st = [ClassOrModule 13, Method 21, Method 22] \<and>
   distinct (inserted worldK_st) \<and>
   distinct (map declSymbol
     (filter guarded (rbiDeclared worldK_out @ testRBIDeclared worldK_out)))"
  using guarded_declarations_once [OF worldK_run]
  by (simp add: worldK_run worldK_st_def)

text \<open>The claim as stated fails on \<open>worldK_field\<close>: the export path \<^verbatim>\<open>P::K::@x\<close>
  resolves to the instance field, which is printed once when it is popped from the worklist
  and once more inside the constructor of \<^verbatim>\<open>P::K\<close>.\<close>

theorem field_declared_twice_counterexample:
  "lookupFQN worldK_field [10, 11, 13] = FieldOrStaticField 31 \<and>
   runOnce worldK_field 10 {10} =
     Some (Inr \<lparr>baseFilePath = ''P'',
       rbi = ''# typed: true'' @ NL @ NL @
             ''@x = T.let(T.unsafe(nil), T.untyped)'' @ NL @
             ''class P::K'' @ NL @
             ''  def foo; end'' @ NL @
             ''  sig {params(w: Integer).returns(T::Boolean)}'' @ NL @
             ''  def resize(w); end'' @ NL @
             ''  sig {void}'' @ NL @
             ''  def initialize'' @ NL @
             ''    @x = T.let(T.unsafe(nil), T.untyped)'' @ NL @
             ''  end'' @ NL @
             ''end'' @ NL,
       testRBI = [],
       rbiDeclared = [DeclField 31, DeclClass 13, DeclMethod 21, DeclMethod 22, DeclField 31],
       testRBIDeclared = []\<rparr>)"
  by (simp add: model_defs world_defs)

section \<open>The state of the test pass\<close>




section \<open>Exports under the test namespace\<close>





section \<open>The type traversal\<close>

text \<open>C3, as amended. The traversal visits every sub-type position of every composite
  variant and calls \<^verbatim>\<open>maybeEmit\<close>, in order, on exactly the symbols of
  \<open>symbolsEnqueued\<close>: the aliased target, the applied class, the class of a class type, the
  definition of a self-type parameter, the two classes of an unresolved applied type, and the
  symbols of the children. A literal, the self type, a type variable, an unresolved class,
  blamed untyped and the null type schedule nothing, and a bounded parameter schedules the
  symbols of its two bounds only, not its definition.\<close>

theorem enqueueSymbolsInType_schedules:
  "enqueueSymbolsInType gs ex t st = forEach (maybeEmit gs ex) (symbolsEnqueued t) st"
proof (induction gs ex t st rule: enqueueSymbolsInType.induct)
  case (4 gs ex klass targs st)
  have "forEach (enqueueSymbolsInType gs ex) targs s =
        forEach (maybeEmit gs ex) (concat (map symbolsEnqueued targs)) s"
    if "maybeEmit gs ex (ClassOrModule klass) st = Some s0" for s s0
    by (rule forEach_concat_map) (use 4 that in blast)
  then show ?case by (auto split: option.splits)
next
  case (12 gs ex keys vals st)
  have k: "forEach (enqueueSymbolsInType gs ex) keys s =
        forEach (maybeEmit gs ex) (concat (map symbolsEnqueued keys)) s" for s
    by (rule forEach_concat_map) (use 12 in blast)
  have "forEach (enqueueSymbolsInType gs ex) vals s =
        forEach (maybeEmit gs ex) (concat (map symbolsEnqueued vals)) s"
    if "forEach (enqueueSymbolsInType gs ex) keys st = Some s0" for s s0
    by (rule forEach_concat_map) (use 12 that in blast)
  then show ?case by (auto simp: forEach_append k split: option.splits)
next
  case (13 gs ex elems st)
  show ?case by simp (rule forEach_concat_map, use 13 in blast)
next
  case (15 gs ex klass symbol targs st)
  have "forEach (enqueueSymbolsInType gs ex) targs s =
        forEach (maybeEmit gs ex) (concat (map symbolsEnqueued targs)) s"
    if "maybeEmit gs ex (ClassOrModule klass) st = Some s0"
       "maybeEmit gs ex (ClassOrModule symbol) s0 = Some s1" for s s0 s1
    by (rule forEach_concat_map) (use 15 that in blast)
  then show ?case by (auto split: option.splits)
qed (auto simp: forEach_append split: option.splits)

theorem enqueueSymbolsInType_schedules_witness:
  "symbolsEnqueued (AppliedType 13 [LiteralType (Some 13), SelfTypeParam (TypeMember 5)]) =
     [ClassOrModule 13, TypeMember 5] \<and>
   enqueueSymbolsInType worldK worldK_ex
     (AppliedType 13 [LiteralType (Some 13), SelfTypeParam (TypeMember 5)]) newExporterState =
   Some \<lparr>emittedSymbols = {TypeMember 5, ClassOrModule 13},
         toEmit = [ClassOrModule 13, TypeMember 5],
         out = \<lparr>buffer = [], indent = 0, tabStr = []\<rparr>,
         inserted = [ClassOrModule 13, TypeMember 5], rendered = []\<rparr>"
  using enqueueSymbolsInType_schedules
    [of worldK worldK_ex "AppliedType 13 [LiteralType (Some 13), SelfTypeParam (TypeMember 5)]"
        newExporterState]
  by (simp add: model_defs world_defs)

text \<open>The claim as stated fails on \<open>worldK\<close>: the definition of a bounded parameter (a type
  member of \<^verbatim>\<open>P::K\<close>) and the class of a literal (\<^verbatim>\<open>P::K\<close>) are in the package and
  not emitted, so \<^verbatim>\<open>maybeEmit\<close> would schedule them; the traversal leaves the state as it
  is.\<close>

theorem literal_and_bound_not_scheduled_counterexample:
  "enqueueSymbolsInType worldK worldK_ex (LambdaParam 5 NullType NullType) newExporterState
     = Some newExporterState \<and>
   enqueueSymbolsInType worldK worldK_ex (LambdaParam 5 NullType NullType) newExporterState
     \<noteq> forEach (maybeEmit worldK worldK_ex)
         (symbolsEmbedded (LambdaParam 5 NullType NullType)) newExporterState \<and>
   enqueueSymbolsInType worldK worldK_ex (LiteralType (Some 13)) newExporterState
     = Some newExporterState \<and>
   enqueueSymbolsInType worldK worldK_ex (LiteralType (Some 13)) newExporterState
     \<noteq> forEach (maybeEmit worldK worldK_ex)
         (symbolsEmbedded (LiteralType (Some 13))) newExporterState"
  by (simp add: model_defs world_defs)

section \<open>The formatters\<close>

lemma forEach_returns:
  assumes "\<And>x s. x \<in> set xs \<Longrightarrow> f x s \<noteq> None"
  shows "forEach f xs st \<noteq> None"
  using assms
proof (induction xs arbitrary: st)
  case Nil
  show ?case by simp
next
  case (Cons x xs)
  from Cons.prems [of x st] obtain s1 where "f x st = Some s1" by auto
  with Cons.IH [of s1] Cons.prems show ?case by simp
qed







lemma out_emittedSymbols_insert [simp]:
  "out (emittedSymbols_insert s st) = out st"
  "rendered (emittedSymbols_insert s st) = rendered st"
  by (simp_all add: emittedSymbols_insert_def)





text \<open>On \<open>worldM\<close> scheduling returns, as on \<open>worldK\<close>.\<close>

lemma worldM_isInPackage_returns:
  "isInPackage worldM worldM_ex s \<noteq> None"
  by (cases s)
     (auto simp: isInPackage.simps world_defs RBIExporter_def
        getPkgTestNamespace_def lookupFQN_def symbol_exists_def noClassOrModule_def
        asClassOrModuleRef_def)

lemma worldM_schedulingReturns:
  "schedulingReturns worldM worldM_ex"
  unfolding schedulingReturns_def
proof (intro allI)
  fix s st
  from worldM_isInPackage_returns [of s] obtain b where
    "isInPackage worldM worldM_ex s = Some b" by auto
  moreover have "\<not> isSingletonClass (classData worldM c)" for c
    by (simp add: world_defs)
  ultimately show "maybeEmit worldM worldM_ex s st \<noteq> None"
    by (subst maybeEmit.simps) simp
qed

text \<open>C8. In a table where scheduling returns, \<^verbatim>\<open>emit(MethodRef)\<close> returns. When the
  method is already in \<open>emittedSymbols\<close>, is the static initializer or is private, the text
  buffer, the printed declarations and the worklist are as before. Otherwise the state it
  returns is the one \<^verbatim>\<open>maybeEmit\<close> leaves after it was called, in order, on the method's
  \<open>scheduledByMethod\<close> symbols: every symbol of an argument type that is in the package
  (and is not a singleton class) is in \<open>emittedSymbols\<close> afterwards, and is on the worklist
  unless it was emitted before; the signature is printed when the method has one, then the
  header followed by \<^verbatim>\<open>; end\<close>, and nothing else.\<close>

theorem emit_method_behaviour:
  assumes "schedulingReturns gs ex"
  shows "\<exists>st'. emit_method gs ex m st = Some st' \<and>
     (if Method m \<in> emittedSymbols st \<or> m_name (methodData gs m) = staticInit (Names gs) \<or>
         m_isPrivate (methodData gs m)
      then out st' = out st \<and> rendered st' = rendered st \<and> toEmit st' = toEmit st
      else (\<exists>st2. forEach (maybeEmit gs ex) (scheduledByMethod gs m)
                    (emittedSymbols_insert (Method m) st) = Some st2 \<and>
                  emittedSymbols st' = emittedSymbols st2 \<and> toEmit st' = toEmit st2 \<and>
                  inserted st' = inserted st2) \<and>
           (\<forall>s\<in>set (methodArgumentSymbols gs m).
              \<not> isSingletonSymbol gs s \<and> isInPackage gs ex s = Some True \<longrightarrow>
              s \<in> emittedSymbols st' \<and>
              (s \<in> emittedSymbols st \<or> s = Method m \<or> s \<in> set (toEmit st'))) \<and>
           out st' =
             println (prettyDefForMethod gs m @ ''; end'')
               (if hasSig (methodData gs m)
                then println (prettySigText gs m NullType (m_resultType (methodData gs m)) None)
                       (out st)
                else out st) \<and>
           rendered st' = rendered st @ [DeclMethod m])"
proof (cases "Method m \<in> emittedSymbols st \<or> m_name (methodData gs m) = staticInit (Names gs) \<or>
         m_isPrivate (methodData gs m)")
  case True
  then show ?thesis
    by (auto simp: emit_method_exact emittedSymbols_insert_def)
next
  case False
  let ?st1 = "emittedSymbols_insert (Method m) st"
  have "forEach (maybeEmit gs ex) (scheduledByMethod gs m) ?st1 \<noteq> None"
    by (rule forEach_returns) (use assms in \<open>simp add: schedulingReturns_def\<close>)
  then obtain st2 where
    st2: "forEach (maybeEmit gs ex) (scheduledByMethod gs m) ?st1 = Some st2" by auto
  have o2: "out st2 = out st \<and> rendered st2 = rendered st"
    using st2
    by (rule forEach_preserves [where P = "\<lambda>s. out s = out st \<and> rendered s = rendered st"])
       (auto dest: maybeEmit_out)
  from forEach_maybeEmit_scheduled [OF st2] obtain new where
    sch: "emittedSymbols ?st1 \<subseteq> emittedSymbols st2"
      "toEmit st2 = toEmit ?st1 @ new" "set new = emittedSymbols st2 - emittedSymbols ?st1"
      "\<forall>s\<in>set (scheduledByMethod gs m).
         \<not> isSingletonSymbol gs s \<and> isInPackage gs ex s = Some True \<longrightarrow> s \<in> emittedSymbols st2"
    by blast
  let ?st' = "declared (DeclMethod m)
               (out_println (prettyDefForMethod gs m @ ''; end'')
                  (if hasSig (methodData gs m)
                   then out_println
                          (prettySigText gs m NullType (m_resultType (methodData gs m)) None) st2
                   else st2))"
  have r: "emit_method gs ex m st = Some ?st'"
    using False st2 by (simp add: emit_method_exact)
  have f: "emittedSymbols ?st' = emittedSymbols st2" "toEmit ?st' = toEmit st2"
    "inserted ?st' = inserted st2"
    "out ?st' = println (prettyDefForMethod gs m @ ''; end'')
               (if hasSig (methodData gs m)
                then println (prettySigText gs m NullType (m_resultType (methodData gs m)) None)
                       (out st)
                else out st)"
    "rendered ?st' = rendered st @ [DeclMethod m]"
    using o2 by (simp_all add: declared_def out_println_def)
  have a: "s \<in> emittedSymbols ?st' \<and>
           (s \<in> emittedSymbols st \<or> s = Method m \<or> s \<in> set (toEmit ?st'))"
    if "s \<in> set (methodArgumentSymbols gs m)" "\<not> isSingletonSymbol gs s"
       "isInPackage gs ex s = Some True" for s
  proof -
    from that(1) have "s \<in> set (scheduledByMethod gs m)"
      by (simp add: scheduledByMethod_def)
    with sch(4) that(2,3) have "s \<in> emittedSymbols st2" by blast
    then show ?thesis
      using sch(2,3) by (auto simp: f(1,2) emittedSymbols_insert_def)
  qed
  show ?thesis
    using False r st2 f a by (intro exI [of _ ?st']) (simp only: if_False, blast)
qed

text \<open>On \<open>worldM\<close>, from the empty state: the argument of method 27 has the type
  \<^verbatim>\<open>P::K\<close>, which is put on the worklist, and the method gets its signature and its
  header; the private method 24 leaves the buffer and the worklist empty.\<close>

lemma worldM_method:
  "emit_method worldM worldM_ex 27 newExporterState =
     Some \<lparr>emittedSymbols = {ClassOrModule 13, Method 27}, toEmit = [ClassOrModule 13],
           out = \<lparr>buffer = ''sig {params(k: P::K).returns(T::Boolean)}'' @ NL @
                          ''def wide(k); end'' @ NL,
                  indent = 0, tabStr = []\<rparr>,
           inserted = [Method 27, ClassOrModule 13], rendered = [DeclMethod 27]\<rparr>"
  "methodArgumentSymbols worldM 27 = [ClassOrModule 13]"
  "isInPackage worldM worldM_ex (ClassOrModule 13) = Some True"
  "\<not> isSingletonSymbol worldM (ClassOrModule 13)"
  "emit_method worldM worldM_ex 24 newExporterState =
     Some (emittedSymbols_insert (Method 24) newExporterState)"
  by (simp_all add: model_defs world_defs methodArgumentSymbols_def
        isSingletonSymbol_def)

theorem emit_method_behaviour_witness:
  "emit_method worldM worldM_ex 27 newExporterState =
     Some \<lparr>emittedSymbols = {ClassOrModule 13, Method 27}, toEmit = [ClassOrModule 13],
           out = \<lparr>buffer = ''sig {params(k: P::K).returns(T::Boolean)}'' @ NL @
                          ''def wide(k); end'' @ NL,
                  indent = 0, tabStr = []\<rparr>,
           inserted = [Method 27, ClassOrModule 13], rendered = [DeclMethod 27]\<rparr> \<and>
   methodArgumentSymbols worldM 27 = [ClassOrModule 13] \<and>
   isInPackage worldM worldM_ex (ClassOrModule 13) = Some True \<and>
   map_option out (emit_method worldM worldM_ex 24 newExporterState) =
     Some (out newExporterState) \<and>
   map_option toEmit (emit_method worldM worldM_ex 24 newExporterState) = Some []"
proof -
  from emit_method_behaviour [OF worldM_schedulingReturns, of 24 newExporterState]
  have "map_option out (emit_method worldM worldM_ex 24 newExporterState) =
          Some (out newExporterState) \<and>
        map_option toEmit (emit_method worldM worldM_ex 24 newExporterState) = Some []"
    by (auto simp: world_defs newExporterState_def split: if_splits)
  moreover
  from emit_method_behaviour [OF worldM_schedulingReturns, of 27 newExporterState]
  have "ClassOrModule 13 \<in> set (toEmit (the (emit_method worldM worldM_ex 27 newExporterState)))"
    using worldM_method(2,3,4)
    by (auto simp: world_defs newExporterState_def split: if_splits)
  ultimately show ?thesis
    using worldM_method by simp
qed

section \<open>Empty blobs\<close>

text \<open>C4. On \<open>worldE\<close> the only regular export is an enumeration value class, for which the
  class emitter prints nothing. The regular blob is not omitted: it is the header line and
  the empty line after it. The same class as the only test export (\<open>worldE_test\<close>) gives no
  test blob.\<close>

theorem regular_blob_header_only:
  "runOnce worldE 10 {10} =
     Some (Inr \<lparr>baseFilePath = ''P'', rbi = ''# typed: true'' @ NL @ NL, testRBI = [],
                rbiDeclared = [], testRBIDeclared = []\<rparr>) \<and>
   runOnce worldE_test 10 {10} =
     Some (Inr \<lparr>baseFilePath = ''P'', rbi = [], testRBI = [],
                rbiDeclared = [], testRBIDeclared = []\<rparr>)"
  by (simp add: model_defs world_defs)

end
